theory Spec2Isabelle
  imports Complex_Main
begin

section \<open>Tensors\<close>

text \<open>
  The notebooks are straight-line calls into a tensor library. A tensor is its shape
  together with its elements in row-major order. Elements are idealised as real numbers:
  rounding of 32-bit floats is not modelled.
\<close>

record tensor =
  shape :: "nat list"
  data :: "real list"

datatype load_problem =
    Missing string
  | Unexpected string
  | Mismatch string "nat list" "nat list"

datatype error =
    IndexError
  | SizeMismatch
  | ValueError
  | KeyError string
  | FileNotFound string
  | LoadError "load_problem list"

text \<open>The rows of length \<open>n\<close> of a flat list: the slices of a tensor along its first
  axes.\<close>

definition rows :: "nat \<Rightarrow> real list \<Rightarrow> real list list" where
  "rows n xs = map (\<lambda>i. take n (drop (i * n) xs)) [0..<length xs div n]"

text \<open>The samples of a batch: one flat slice per index of the first axis.\<close>

definition samples :: "tensor \<Rightarrow> real list list" where
  "samples t = rows (prod_list (tl (shape t))) (data t)"

text \<open>
  \<^verbatim>\<open>images.resize_(n, 784)\<close>: the library reshapes in place and keeps the elements
  in storage order. When the new shape holds more elements than the storage, the new
  positions are uninitialised memory; \<open>garbage\<close> stands for whatever is found there.
\<close>

definition resize :: "(nat \<Rightarrow> real) \<Rightarrow> tensor \<Rightarrow> nat list \<Rightarrow> tensor" where
  "resize garbage t new =
     \<lparr>shape = new,
      data = map (\<lambda>i. if i < length (data t) then data t ! i else garbage i)
               [0..<prod_list new]\<rparr>"

text \<open>
  \<^verbatim>\<open>images.resize_(images.size()[0], 784)\<close>, the flattening of the training loop;
  \<^verbatim>\<open>size()[0]\<close> raises on a tensor without axes.
\<close>

definition flatten_batch :: "(nat \<Rightarrow> real) \<Rightarrow> tensor \<Rightarrow> error + tensor" where
  "flatten_batch garbage images =
     (case shape images of
        [] \<Rightarrow> Inl IndexError
      | n # _ \<Rightarrow> Inr (resize garbage images [n, 784]))"

text \<open>\<^verbatim>\<open>images.resize_(64, 784)\<close>, the flattening of the single training step shown
  before the loop, on the first batch of the loader.\<close>

definition flatten_first_batch :: "(nat \<Rightarrow> real) \<Rightarrow> tensor \<Rightarrow> tensor" where
  "flatten_first_batch garbage images = resize garbage images [64, 784]"

text \<open>\<^verbatim>\<open>images[0].view(1, 784)\<close>: the first sample, viewed as one row of 784
  elements.\<close>

definition first_sample_view :: "tensor \<Rightarrow> error + tensor" where
  "first_sample_view images =
     (case shape images of
        [] \<Rightarrow> Inl IndexError
      | n # rest \<Rightarrow>
          if n = 0 then Inl IndexError
          else if prod_list rest = 784
          then Inr \<lparr>shape = [1, 784], data = take 784 (data images)\<rparr>
          else Inl SizeMismatch)"

section \<open>Layers\<close>

text \<open>
  \<^verbatim>\<open>nn.Linear(in_features, out_features)\<close> owns a weight of shape
  \<open>[out_features, in_features]\<close> and a bias of shape \<open>[out_features]\<close>. The library
  draws the initial values at random; \<open>init k j\<close> is the value drawn for element \<open>j\<close>
  of the parameter named \<open>k\<close>.
\<close>

record linear =
  in_features :: nat
  out_features :: nat
  weight :: tensor
  bias :: tensor

definition Linear :: "(string \<Rightarrow> nat \<Rightarrow> real) \<Rightarrow> string \<Rightarrow> nat \<Rightarrow> nat \<Rightarrow> linear" where
  "Linear init name n_in n_out =
     \<lparr>in_features = n_in, out_features = n_out,
      weight = \<lparr>shape = [n_out, n_in],
                data = map (init (name @ ''.weight'')) [0..<n_out * n_in]\<rparr>,
      bias = \<lparr>shape = [n_out], data = map (init (name @ ''.bias'')) [0..<n_out]\<rparr>\<rparr>"

definition dot :: "real list \<Rightarrow> real list \<Rightarrow> real" where
  "dot u v = sum_list (map2 (*) u v)"

text \<open>
  The affine transform \<open>x W\<^sup>T + b\<close> on every row of the input; the last axis of the
  input must be \<open>in_features\<close> wide, otherwise the library raises.
\<close>

definition linear_forward :: "linear \<Rightarrow> tensor \<Rightarrow> error + tensor" where
  "linear_forward l x =
     (if shape x = [] then Inl SizeMismatch
      else if last (shape x) = in_features l
      then Inr \<lparr>shape = butlast (shape x) @ [out_features l],
                data = concat (map (\<lambda>r. map2 (\<lambda>w b. dot r w + b)
                                       (rows (in_features l) (data (weight l)))
                                       (data (bias l)))
                                 (rows (in_features l) (data x)))\<rparr>
      else Inl SizeMismatch)"

text \<open>\<^verbatim>\<open>F.relu\<close>: negative elements become zero.\<close>

definition relu :: "tensor \<Rightarrow> tensor" where
  "relu x = x\<lparr>data := map (max 0) (data x)\<rparr>"

text \<open>
  \<^verbatim>\<open>F.softmax(x, dim=1)\<close>: along axis 1, each element's exponential over the sum of
  the exponentials. Element \<open>(i, j, k)\<close> of a tensor of shape \<open>b # c # rest\<close> lies at
  \<open>(i * c + j) * inner + k\<close> with \<open>inner\<close> the number of elements of \<open>rest\<close>.
\<close>

definition softmax_dim1 :: "nat \<Rightarrow> nat \<Rightarrow> real list \<Rightarrow> real list" where
  "softmax_dim1 c inner xs =
     map (\<lambda>idx. exp (xs ! idx) /
            sum_list (map (\<lambda>j. exp (xs ! (idx div (c * inner) * (c * inner) + j * inner
                                            + idx mod inner)))
                       [0..<c]))
       [0..<length xs]"

definition softmax :: "tensor \<Rightarrow> error + tensor" where
  "softmax x =
     (case shape x of
        b # c # rest \<Rightarrow> Inr (x\<lparr>data := softmax_dim1 c (prod_list rest) (data x)\<rparr>)
      | _ \<Rightarrow> Inl IndexError)"

text \<open>
  \<^verbatim>\<open>nn.Dropout(p)\<close>: in training mode each element is kept with probability
  \<open>1 - p\<close> and scaled by \<open>1 / (1 - p)\<close>, otherwise zeroed; in evaluation mode the
  input passes unchanged. The random draws are an arbitrary tape of booleans read from a
  position that advances by one per element.
\<close>

definition dropout ::
  "real \<Rightarrow> bool \<Rightarrow> (nat \<Rightarrow> bool) \<Rightarrow> tensor \<Rightarrow> nat \<Rightarrow> tensor \<times> nat" where
  "dropout p training tape x pos =
     (if training
      then (x\<lparr>data := map (\<lambda>(i, v). if tape (pos + i) then v / (1 - p) else 0)
                         (enumerate 0 (data x))\<rparr>,
            pos + length (data x))
      else (x, pos))"

section \<open>Sequential containers\<close>

datatype module = MLinear linear | MReLU | MSoftmax | MDropout real

type_synonym sequential = "(string \<times> module) list"

fun module_forward ::
  "bool \<Rightarrow> (nat \<Rightarrow> bool) \<Rightarrow> module \<Rightarrow> tensor \<Rightarrow> nat \<Rightarrow> (error + tensor) \<times> nat" where
  "module_forward training tape (MLinear l) x pos = (linear_forward l x, pos)"
| "module_forward training tape MReLU x pos = (Inr (relu x), pos)"
| "module_forward training tape MSoftmax x pos = (softmax x, pos)"
| "module_forward training tape (MDropout p) x pos =
     (case dropout p training tape x pos of (y, pos') \<Rightarrow> (Inr y, pos'))"

text \<open>\<^verbatim>\<open>nn.Sequential.forward\<close>: the modules in order, each fed the previous output.\<close>

fun sequential_forward ::
  "bool \<Rightarrow> (nat \<Rightarrow> bool) \<Rightarrow> sequential \<Rightarrow> tensor \<Rightarrow> nat \<Rightarrow> (error + tensor) \<times> nat" where
  "sequential_forward training tape [] x pos = (Inr x, pos)"
| "sequential_forward training tape ((name, m) # ms) x pos =
     (case module_forward training tape m x pos of
        (Inl e, pos') \<Rightarrow> (Inl e, pos')
      | (Inr y, pos') \<Rightarrow> sequential_forward training tape ms y pos')"

text \<open>The parameters of a container in registration order, as \<^verbatim>\<open>model.parameters()\<close>
  lists them: weight then bias of every linear module.\<close>

fun parameters :: "sequential \<Rightarrow> tensor list" where
  "parameters [] = []"
| "parameters ((name, MLinear l) # ms) = weight l # bias l # parameters ms"
| "parameters ((name, m) # ms) = parameters ms"

text \<open>
  The optimizer holds references to the tensors of \<^verbatim>\<open>model.parameters()\<close> and
  mutates them in place. With values instead of references, the mutation is a write-back
  by position: the i-th tensor handed out is the i-th tensor written.
\<close>

fun set_parameters :: "sequential \<Rightarrow> tensor list \<Rightarrow> sequential" where
  "set_parameters [] ps = []"
| "set_parameters ((name, MLinear l) # ms) (w # b # ps) =
     (name, MLinear (l\<lparr>weight := w, bias := b\<rparr>)) # set_parameters ms ps"
| "set_parameters ((name, MLinear l) # ms) ps = (name, MLinear l) # set_parameters ms []"
| "set_parameters ((name, m) # ms) ps = (name, m) # set_parameters ms ps"

text \<open>\<^verbatim>\<open>model.state_dict()\<close> of a container: every parameter under its qualified name.\<close>

fun state_dict_seq :: "sequential \<Rightarrow> (string \<times> tensor) list" where
  "state_dict_seq [] = []"
| "state_dict_seq ((name, MLinear l) # ms) =
     (name @ ''.weight'', weight l) # (name @ ''.bias'', bias l) # state_dict_seq ms"
| "state_dict_seq ((name, m) # ms) = state_dict_seq ms"

section \<open>The networks of the notebooks\<close>

definition and_then :: "error + 'a \<Rightarrow> ('a \<Rightarrow> error + 'b) \<Rightarrow> error + 'b" where
  "and_then r f = (case r of Inl e \<Rightarrow> Inl e | Inr v \<Rightarrow> f v)"

text \<open>
  The class \<^verbatim>\<open>Network\<close> of the network-building notebook (its first way to build
  the network): three linear layers of fixed widths.
  \<^verbatim>\<open>
    def forward(self, x):
        x = self.fc1(x)
        x = F.relu(x)
        x = self.fc2(x)
        x = F.relu(x)
        x = self.fc3(x)
        x = F.softmax(x, dim=1)
        return x
  \<close>
\<close>

record network_fc =
  fc1 :: linear
  fc2 :: linear
  fc3 :: linear

definition Network_fc :: "(string \<Rightarrow> nat \<Rightarrow> real) \<Rightarrow> network_fc" where
  "Network_fc init =
     \<lparr>fc1 = Linear init ''fc1'' 784 128,
      fc2 = Linear init ''fc2'' 128 64,
      fc3 = Linear init ''fc3'' 64 10\<rparr>"

definition forward_fc :: "network_fc \<Rightarrow> tensor \<Rightarrow> error + tensor" where
  "forward_fc self x =
     and_then (linear_forward (fc1 self) x) (\<lambda>x.
     and_then (Inr (relu x)) (\<lambda>x.
     and_then (linear_forward (fc2 self) x) (\<lambda>x.
     and_then (Inr (relu x)) (\<lambda>x.
     and_then (linear_forward (fc3 self) x) (\<lambda>x.
     softmax x)))))"

text \<open>The hyperparameters shared by the notebooks' containers.\<close>

definition input_size :: nat where "input_size = 784"
definition hidden_sizes :: "nat list" where "hidden_sizes = [128, 64]"
definition output_size :: nat where "output_size = 10"

text \<open>The container of the network-building notebook: it ends in a softmax module.\<close>

definition model_softmax :: "(string \<Rightarrow> nat \<Rightarrow> real) \<Rightarrow> sequential" where
  "model_softmax init =
     [(''fc1'', MLinear (Linear init ''fc1'' input_size (hidden_sizes ! 0))),
      (''relu1'', MReLU),
      (''fc2'', MLinear (Linear init ''fc2'' (hidden_sizes ! 0) (hidden_sizes ! 1))),
      (''relu2'', MReLU),
      (''output'', MLinear (Linear init ''output'' (hidden_sizes ! 1) output_size)),
      (''softmax'', MSoftmax)]"

text \<open>The container of the training notebook: its last module is the linear layer
  \<^verbatim>\<open>logits\<close>.\<close>

definition model_logits :: "(string \<Rightarrow> nat \<Rightarrow> real) \<Rightarrow> sequential" where
  "model_logits init =
     [(''fc1'', MLinear (Linear init ''fc1'' input_size (hidden_sizes ! 0))),
      (''relu1'', MReLU),
      (''fc2'', MLinear (Linear init ''fc2'' (hidden_sizes ! 0) (hidden_sizes ! 1))),
      (''relu2'', MReLU),
      (''logits'', MLinear (Linear init ''logits'' (hidden_sizes ! 1) output_size))]"

text \<open>
  The forward pass as the specification words it: every hidden affine transform followed
  by the rectified-linear nonlinearity, then the final affine transform, whose raw output
  is returned.
\<close>

fun raw_logits :: "linear list \<Rightarrow> linear \<Rightarrow> tensor \<Rightarrow> error + tensor" where
  "raw_logits [] final x = linear_forward final x"
| "raw_logits (l # ls) final x =
     and_then (linear_forward l x) (\<lambda>y. raw_logits ls final (relu y))"

section \<open>Training\<close>

text \<open>
  \<^verbatim>\<open>nn.CrossEntropyLoss\<close>: the mean over the batch of the negative log of the
  softmax probability of the labelled class.
\<close>

definition cross_entropy :: "tensor \<Rightarrow> nat list \<Rightarrow> error + real" where
  "cross_entropy out labels =
     (case shape out of
        [b, c] \<Rightarrow>
          if length labels = b \<and> list_all (\<lambda>y. y < c) labels
          then Inr (sum_list (map (\<lambda>(r, y). - ln (exp (r ! y) / sum_list (map exp r)))
                                (zip (rows c (data out)) labels)) / real b)
          else Inl ValueError
      | _ \<Rightarrow> Inl ValueError)"

text \<open>
  \<^verbatim>\<open>optim.SGD(model.parameters(), lr)\<close> without momentum: the library's step is
  \<^verbatim>\<open>p.data.add_(-lr, p.grad)\<close> for every parameter that has a gradient.
\<close>

definition sgd_update :: "real \<Rightarrow> real list \<Rightarrow> real list \<Rightarrow> real list" where
  "sgd_update lr p g = map2 (\<lambda>x d. x + (- lr) * d) p g"

text \<open>
  \<^verbatim>\<open>optim.Adam(model.parameters(), lr)\<close> with the library's defaults
  \<^verbatim>\<open>betas=(0.9, 0.999), eps=1e-8\<close>: running averages of the gradient and of its
  square, and a step scaled by their bias-corrected quotient.
\<close>

record adam_state =
  step :: nat
  exp_avg :: "real list"
  exp_avg_sq :: "real list"

definition adam_update ::
  "real \<Rightarrow> adam_state option \<Rightarrow> real list \<Rightarrow> real list \<Rightarrow> real list \<times> adam_state" where
  "adam_update lr st p g =
     (let st0 = (case st of
                   None \<Rightarrow> \<lparr>step = 0, exp_avg = map (\<lambda>_. 0) p, exp_avg_sq = map (\<lambda>_. 0) p\<rparr>
                 | Some s \<Rightarrow> s);
          t = step st0 + 1;
          m = map2 (\<lambda>a d. (9 / 10) * a + (1 - 9 / 10) * d) (exp_avg st0) g;
          v = map2 (\<lambda>a d. (999 / 1000) * a + (1 - 999 / 1000) * d * d) (exp_avg_sq st0) g;
          denom = map (\<lambda>a. sqrt a + 1 / 10 ^ 8) v;
          bias_correction1 = 1 - (9 / 10) ^ t;
          bias_correction2 = 1 - (999 / 1000) ^ t;
          step_size = lr * sqrt bias_correction2 / bias_correction1
      in (map2 (\<lambda>x (a, d). x + (- step_size) * (a / d)) p (zip m denom),
          \<lparr>step = t, exp_avg = m, exp_avg_sq = v\<rparr>))"

datatype optimizer = SGD real | Adam real "nat \<Rightarrow> adam_state option"

text \<open>\<^verbatim>\<open>optimizer.step()\<close> on the parameters it was given; \<open>grads i\<close> is
  \<^verbatim>\<open>p.grad\<close> of the i-th parameter, \<open>None\<close> before the first backward pass.\<close>

fun optimizer_step ::
  "optimizer \<Rightarrow> (nat \<Rightarrow> real list option) \<Rightarrow> tensor list \<Rightarrow> tensor list \<times> optimizer" where
  "optimizer_step (SGD lr) grads ps =
     (map (\<lambda>(i, p). case grads i of
                      None \<Rightarrow> p
                    | Some g \<Rightarrow> p\<lparr>data := sgd_update lr (data p) g\<rparr>)
        (enumerate 0 ps),
      SGD lr)"
| "optimizer_step (Adam lr st) grads ps =
     (map (\<lambda>(i, p). case grads i of
                      None \<Rightarrow> p
                    | Some g \<Rightarrow> p\<lparr>data := fst (adam_update lr (st i) (data p) g)\<rparr>)
        (enumerate 0 ps),
      Adam lr (\<lambda>i. if i < length ps
                   then (case grads i of
                           None \<Rightarrow> st i
                         | Some g \<Rightarrow> Some (snd (adam_update lr (st i) (data (ps ! i)) g)))
                   else st i))"

text \<open>
  The variables a training notebook keeps between cells: the model, the gradient buffer of
  each of its parameters, the optimizer, the position of the random generator and whether
  gradient recording is switched on.
\<close>

record session =
  model :: sequential
  grads :: "nat \<Rightarrow> real list option"
  optimizer :: optimizer
  rng_pos :: nat
  grad_enabled :: bool

text \<open>
  Modelled from the spec: \<^verbatim>\<open>optimizer.zero_grad()\<close> of the tensor library, the
  explicit reset of the accumulated gradients. Every gradient buffer that exists is filled
  with zeros.
\<close>

definition zero_grad :: "session \<Rightarrow> session" where
  "zero_grad s = s\<lparr>grads := (\<lambda>i. map_option (map (\<lambda>_. 0)) (grads s i))\<rparr>"

text \<open>
  Modelled from the spec: \<^verbatim>\<open>loss.backward()\<close> of the tensor library. Gradients are
  additive across calls unless explicitly reset (the notebook: ``gradients are
  accumulated''): the gradient of the loss with respect to a parameter is added to the
  parameter's buffer, or stored when there is no buffer yet. Reverse-mode differentiation
  itself is the library's: \<open>ag\<close> gives the gradient with respect to the i-th parameter,
  from the random tape and the position the forward pass started at, the parameter values
  and the batch.
\<close>

type_synonym autograd =
  "(nat \<Rightarrow> bool) \<Rightarrow> nat \<Rightarrow> tensor list \<Rightarrow> tensor \<Rightarrow> nat list \<Rightarrow> nat \<Rightarrow> real list"

definition accumulate :: "real list option \<Rightarrow> real list \<Rightarrow> real list" where
  "accumulate old g = (case old of None \<Rightarrow> g | Some a \<Rightarrow> map2 (+) a g)"

definition backward ::
  "autograd \<Rightarrow> (nat \<Rightarrow> bool) \<Rightarrow> nat \<Rightarrow> session \<Rightarrow> tensor \<Rightarrow> nat list \<Rightarrow> session" where
  "backward ag tape pos0 s images labels =
     s\<lparr>grads := (\<lambda>i. if i < length (parameters (model s))
                      then Some (accumulate (grads s i)
                                   (ag tape pos0 (parameters (model s)) images labels i))
                      else grads s i)\<rparr>"

definition step_optimizer :: "session \<Rightarrow> session" where
  "step_optimizer s =
     (case optimizer_step (optimizer s) (grads s) (parameters (model s)) of
        (ps, opt) \<Rightarrow> s\<lparr>model := set_parameters (model s) ps, optimizer := opt\<rparr>)"

text \<open>
  The forward and backward pass of one batch, without the optimizer's step:
  \<^verbatim>\<open>
    output = model.forward(images)
    loss = criterion(output, labels)
    loss.backward()
  \<close>
  The result is the loss, or the error raised, and the session as the statements left it.
\<close>

definition forward_backward ::
  "autograd \<Rightarrow> (nat \<Rightarrow> bool) \<Rightarrow> session \<Rightarrow> tensor \<Rightarrow> nat list \<Rightarrow> (error + real) \<times> session" where
  "forward_backward ag tape s images labels =
     (case sequential_forward True tape (model s) images (rng_pos s) of
        (Inl e, p) \<Rightarrow> (Inl e, s\<lparr>rng_pos := p\<rparr>)
      | (Inr out, p) \<Rightarrow>
          (case cross_entropy out labels of
             Inl e \<Rightarrow> (Inl e, s\<lparr>rng_pos := p\<rparr>)
           | Inr loss \<Rightarrow>
               (Inr loss, backward ag tape (rng_pos s) (s\<lparr>rng_pos := p\<rparr>) images labels)))"

text \<open>
  The body of the training loop:
  \<^verbatim>\<open>
    images.resize_(images.size()[0], 784)
    optimizer.zero_grad()
    output = model.forward(images)
    loss = criterion(output, labels)
    loss.backward()
    optimizer.step()
    running_loss += loss.item()
  \<close>
\<close>

definition training_step ::
  "autograd \<Rightarrow> (nat \<Rightarrow> bool) \<Rightarrow> (nat \<Rightarrow> real) \<Rightarrow> session \<Rightarrow> tensor \<Rightarrow> nat list
     \<Rightarrow> (error + real) \<times> session" where
  "training_step ag tape garbage s images labels =
     (case flatten_batch garbage images of
        Inl e \<Rightarrow> (Inl e, s)
      | Inr x \<Rightarrow>
          (case forward_backward ag tape (zero_grad s) x labels of
             (Inl e, s') \<Rightarrow> (Inl e, s')
           | (Inr loss, s') \<Rightarrow> (Inr loss, step_optimizer s')))"

text \<open>
  The inference cell:
  \<^verbatim>\<open>
    img = images[0].view(1, 784)
    with torch.no_grad():
        logits = model.forward(img)
    ps = F.softmax(logits, dim=1)
  \<close>
  \<^verbatim>\<open>torch.no_grad()\<close> switches gradient recording off and restores the previous
  setting when the block is left, also when the block raises.
\<close>

definition inference ::
  "(nat \<Rightarrow> bool) \<Rightarrow> session \<Rightarrow> tensor \<Rightarrow> (error + tensor) \<times> session" where
  "inference tape s images =
     (case first_sample_view images of
        Inl e \<Rightarrow> (Inl e, s)
      | Inr img \<Rightarrow>
          (let previous = grad_enabled s;
               s1 = s\<lparr>grad_enabled := False\<rparr>;
               (logits, p) = sequential_forward True tape (model s1) img (rng_pos s1);
               s2 = s1\<lparr>rng_pos := p, grad_enabled := previous\<rparr>
           in (and_then logits softmax, s2)))"

section \<open>The checkpointed network\<close>

text \<open>Python's \<^verbatim>\<open>str\<close> of a non-negative integer, as it appears in parameter names
  and in printed sizes.\<close>

definition digit_char :: "nat \<Rightarrow> char" where
  "digit_char n = ''0123456789'' ! n"

fun string_of_nat :: "nat \<Rightarrow> string" where
  "string_of_nat n =
     (if n < 10 then [digit_char n]
      else string_of_nat (n div 10) @ [digit_char (n mod 10)])"

declare string_of_nat.simps [simp del]

text \<open>The name of the j-th hidden layer in the names of its parameters.\<close>

definition hidden_name :: "nat \<Rightarrow> string" where
  "hidden_name j = ''hidden_layers.'' @ string_of_nat j"

text \<open>
  Modelled from the spec: the class \<^verbatim>\<open>Network\<close> of the module \<^verbatim>\<open>fc_model\<close>,
  which the checkpoint notebook imports and which is not among the sources. The notebook
  prints an instance as a list \<^verbatim>\<open>hidden_layers\<close> of linear layers, a linear layer
  \<^verbatim>\<open>output\<close> and a dropout of probability one half. Construction takes the input
  width, the output width and the hidden widths, and allocates one affine transform per
  consecutive pair of the widths \<open>input # hidden\<close>, plus a final one from the last of these
  widths to the output width.
\<close>

record network =
  hidden_layers :: "linear list"
  "output" :: linear

definition Network ::
  "(string \<Rightarrow> nat \<Rightarrow> real) \<Rightarrow> nat \<Rightarrow> nat \<Rightarrow> nat list \<Rightarrow> network" where
  "Network init n_in n_out hidden =
     (let widths = n_in # hidden
      in \<lparr>hidden_layers =
            map (\<lambda>(j, a, b). Linear init (hidden_name j) a b)
              (enumerate 0 (zip widths (tl widths))),
          output = Linear init ''output'' (last widths) n_out\<rparr>)"

text \<open>
  Modelled from the spec: the forward pass of \<^verbatim>\<open>fc_model.Network\<close>. Every hidden
  affine transform is followed by the rectified-linear nonlinearity and, in training mode
  only, by dropout; the final affine transform's raw output is returned.
\<close>

definition Network_forward ::
  "bool \<Rightarrow> (nat \<Rightarrow> bool) \<Rightarrow> network \<Rightarrow> tensor \<Rightarrow> nat \<Rightarrow> (error + tensor) \<times> nat" where
  "Network_forward training tape self x pos =
     sequential_forward training tape
       (concat (map (\<lambda>l. [(''hidden'', MLinear l), (''relu'', MReLU),
                            (''dropout'', MDropout (1 / 2))])
                  (hidden_layers self))
        @ [(''output'', MLinear (output self))])
       x pos"

text \<open>\<^verbatim>\<open>model.state_dict()\<close>: the keys are those the notebook prints,
  \<^verbatim>\<open>hidden_layers.0.weight\<close>, \<^verbatim>\<open>hidden_layers.0.bias\<close>, ...,
  \<^verbatim>\<open>output.weight\<close>, \<^verbatim>\<open>output.bias\<close>.\<close>

definition linear_state :: "string \<Rightarrow> linear \<Rightarrow> (string \<times> tensor) list" where
  "linear_state name l = [(name @ ''.weight'', weight l), (name @ ''.bias'', bias l)]"

definition state_dict :: "network \<Rightarrow> (string \<times> tensor) list" where
  "state_dict self =
     concat (map (\<lambda>(j, l). linear_state (hidden_name j) l)
               (enumerate 0 (hidden_layers self)))
     @ linear_state ''output'' (output self)"

definition shapes_of :: "(string \<times> tensor) list \<Rightarrow> (string \<times> nat list) list" where
  "shapes_of sd = map (\<lambda>(k, t). (k, shape t)) sd"

text \<open>
  \<^verbatim>\<open>model.load_state_dict(state_dict)\<close> of the tensor library, as the error the
  notebook records shows it at work. The library copies the stored tensors into the
  parameters of the model one by one; a copy into a parameter of another shape fails, and
  its failure is collected as one message (``While copying the parameter named ...'') in
  \<^verbatim>\<open>error_msgs\<close>. Only after every parameter was tried,
  \<^verbatim>\<open>
    if len(error_msgs) > 0:
        raise RuntimeError(...)
  \<close>
  with the messages joined,
  so when the error is raised, every parameter whose stored tensor has the parameter's
  shape holds the stored tensor, and every other parameter is as it was. Matching of keys
  is strict: a key that one side has and the other lacks is reported as well. The result
  is the error raised, if any, and the model after the call.
\<close>

definition load_problems ::
  "(string \<times> nat list) list \<Rightarrow> (string \<times> nat list) list \<Rightarrow> load_problem list" where
  "load_problems own stored =
     concat (map (\<lambda>(k, p). case map_of stored k of
                             None \<Rightarrow> [Missing k]
                           | Some t \<Rightarrow> if t = p then [] else [Mismatch k p t])
               own)
     @ map Unexpected (filter (\<lambda>k. map_of own k = None) (map fst stored))"

definition load_param :: "(string \<Rightarrow> tensor option) \<Rightarrow> string \<Rightarrow> tensor \<Rightarrow> tensor" where
  "load_param m key param =
     (case m key of
        None \<Rightarrow> param
      | Some t \<Rightarrow> if shape t = shape param then t else param)"

definition load_linear :: "(string \<Rightarrow> tensor option) \<Rightarrow> string \<Rightarrow> linear \<Rightarrow> linear" where
  "load_linear m name l =
     l\<lparr>weight := load_param m (name @ ''.weight'') (weight l),
       bias := load_param m (name @ ''.bias'') (bias l)\<rparr>"

definition load_state_dict ::
  "network \<Rightarrow> (string \<times> tensor) list \<Rightarrow> error option \<times> network" where
  "load_state_dict self sd =
     (let error_msgs = load_problems (shapes_of (state_dict self)) (shapes_of sd);
          loaded =
            \<lparr>hidden_layers =
               map (\<lambda>(j, l). load_linear (map_of sd) (hidden_name j) l)
                 (enumerate 0 (hidden_layers self)),
             output = load_linear (map_of sd) ''output'' (output self)\<rparr>
      in (if length error_msgs > 0 then Some (LoadError error_msgs) else None, loaded))"

text \<open>The message of the error, as the notebook records it for mismatched shapes. (The
  wording for missing and unexpected keys, and their place among the messages, are not
  recorded there.)\<close>

fun join :: "string \<Rightarrow> string list \<Rightarrow> string" where
  "join sep [] = []"
| "join sep [x] = x"
| "join sep (x # y # ys) = x @ sep @ join sep (y # ys)"

definition torch_Size :: "nat list \<Rightarrow> string" where
  "torch_Size s = ''torch.Size(['' @ join '', '' (map string_of_nat s) @ ''])''"

fun problem_message :: "load_problem \<Rightarrow> string" where
  "problem_message (Mismatch k own stored) =
     ''While copying the parameter named '' @ [CHR 0x22] @ k @ [CHR 0x22]
     @ '', whose dimensions in the model are '' @ torch_Size own
     @ '' and whose dimensions in the checkpoint are '' @ torch_Size stored @ ''.''"
| "problem_message (Missing k) = ''Missing key in state_dict: '' @ k"
| "problem_message (Unexpected k) = ''Unexpected key in state_dict: '' @ k"

definition error_message :: "load_problem list \<Rightarrow> string" where
  "error_message ps =
     ''Error(s) in loading state_dict for Network:'' @ [CHR 0x0A, CHR 0x09]
     @ join [CHR 0x0A, CHR 0x09] (map problem_message ps)"

section \<open>Saving and loading checkpoints\<close>

text \<open>
  The checkpoint dictionary of the notebook:
  \<^verbatim>\<open>
    checkpoint = {'input_size': 784,
                  'output_size': 10,
                  'hidden_layers': [each.out_features for each in model.hidden_layers],
                  'state_dict': model.state_dict()}
  \<close>
\<close>

record checkpoint_record =
  input_size' :: nat
  output_size' :: nat
  hidden_layers' :: "nat list"
  state_dict' :: "(string \<times> tensor) list"

definition checkpoint :: "network \<Rightarrow> checkpoint_record" where
  "checkpoint net =
     \<lparr>input_size' = 784,
      output_size' = 10,
      hidden_layers' = map out_features (hidden_layers net),
      state_dict' = state_dict net\<rparr>"





text \<open>
  A network of the class with the given widths, whatever its parameter values: every layer
  has the widths of its place in the chain and tensors of the shapes its widths give.
\<close>

definition wf_linear :: "linear \<Rightarrow> bool" where
  "wf_linear l =
     (shape (weight l) = [out_features l, in_features l]
      \<and> length (data (weight l)) = out_features l * in_features l
      \<and> shape (bias l) = [out_features l]
      \<and> length (data (bias l)) = out_features l)"

definition network_of :: "nat \<Rightarrow> nat \<Rightarrow> nat list \<Rightarrow> network \<Rightarrow> bool" where
  "network_of n_in n_out hidden n =
     (map (\<lambda>l. (in_features l, out_features l)) (hidden_layers n @ [output n])
        = zip (n_in # hidden) (hidden @ [n_out])
      \<and> list_all wf_linear (hidden_layers n @ [output n]))"

text \<open>The names and shapes of the parameters that the three architecture fields of a
  checkpoint record stand for.\<close>

definition linear_shapes :: "string \<Rightarrow> nat \<Rightarrow> nat \<Rightarrow> (string \<times> nat list) list" where
  "linear_shapes name a b = [(name @ ''.weight'', [b, a]), (name @ ''.bias'', [b])]"

definition architecture_shapes :: "nat \<Rightarrow> nat \<Rightarrow> nat list \<Rightarrow> (string \<times> nat list) list" where
  "architecture_shapes n_in n_out hidden =
     concat (map (\<lambda>(j, a, b). linear_shapes (hidden_name j) a b)
               (enumerate 0 (zip (n_in # hidden) hidden)))
     @ linear_shapes ''output'' (last (n_in # hidden)) n_out"


section \<open>Dropout switched off\<close>

text \<open>Dropout is disabled for a forward pass when the container is in evaluation mode or
  holds no dropout module. The parameters of a container are those of its linear modules.\<close>

fun is_dropout :: "module \<Rightarrow> bool" where
  "is_dropout (MDropout p) = True"
| "is_dropout m = False"

fun is_linear :: "module \<Rightarrow> bool" where
  "is_linear (MLinear l) = True"
| "is_linear m = False"

definition dropout_disabled :: "bool \<Rightarrow> sequential \<Rightarrow> bool" where
  "dropout_disabled training ms =
     (if training then list_all (\<lambda>(name, m). \<not> is_dropout m) ms else True)"

text \<open>A call returned, rather than raised.\<close>

definition returned :: "error + 'a \<Rightarrow> bool" where
  "returned r = (case r of Inl e \<Rightarrow> False | Inr v \<Rightarrow> True)"

text \<open>The session of the training notebook once the model, the criterion and the
  optimizer \<^verbatim>\<open>optim.SGD(model.parameters(), lr=0.01)\<close> are defined: no gradient has
  been computed yet.\<close>

definition fresh_session :: "(string \<Rightarrow> nat \<Rightarrow> real) \<Rightarrow> session" where
  "fresh_session init =
     \<lparr>model = model_logits init, grads = (\<lambda>_. None), optimizer = SGD (1 / 100),
      rng_pos = 0, grad_enabled = True\<rparr>"

text \<open>
  A gradient for examples: that of the cross-entropy loss of the training notebook's model
  with all parameters zero, on a zero image labelled 3. The output is ten zeros and each
  class has probability one tenth, so the gradient is one tenth for every element of the
  last bias (parameter 5) but the labelled one, where it is minus nine tenths, and zero
  for every other parameter.
\<close>

definition example_gradient :: autograd where
  "example_gradient tape pos ps x y i =
     (if i = 5 then [1 / 10, 1 / 10, 1 / 10, - (9 / 10), 1 / 10, 1 / 10, 1 / 10, 1 / 10,
                     1 / 10, 1 / 10]
      else map (\<lambda>_. 0) (data (ps ! i)))"

section \<open>Construction of the checkpointed network\<close>

lemma zip_chain: "zip (a # hs) hs @ [(last (a # hs), b)] = zip (a # hs) (hs @ [b])"
  by (induction hs arbitrary: a) auto

lemma linear_dims [simp]:
  "in_features (Linear init name a b) = a"
  "out_features (Linear init name a b) = b"
  "shape (weight (Linear init name a b)) = [b, a]"
  "shape (bias (Linear init name a b)) = [b]"
  "length (data (weight (Linear init name a b))) = b * a"
  "length (data (bias (Linear init name a b))) = b"
  by (simp_all add: Linear_def)

lemma map_enumerate_snd: "map (\<lambda>(j, x). f x) (enumerate k xs) = map f xs"
  by (induction xs arbitrary: k) auto

lemma hidden_dims:
  "map (\<lambda>l. (in_features l, out_features l)) (hidden_layers (Network init n_in n_out hs))
     = zip (n_in # hs) hs"
proof -
  have "map (\<lambda>l. (in_features l, out_features l)) (hidden_layers (Network init n_in n_out hs))
    = map (\<lambda>(j, x). x) (enumerate 0 (zip (n_in # hs) hs))"
    by (simp add: Network_def Let_def case_prod_unfold comp_def)
  then show ?thesis by (simp add: map_enumerate_snd)
qed

lemma output_dims:
  "in_features (output (Network init n_in n_out hs)) = last (n_in # hs)"
  "out_features (output (Network init n_in n_out hs)) = n_out"
  by (simp_all add: Network_def Let_def)

lemma Network_dims:
  "map (\<lambda>l. (in_features l, out_features l))
     (hidden_layers (Network init n_in n_out hs) @ [output (Network init n_in n_out hs)])
   = zip (n_in # hs) (hs @ [n_out])"
  using hidden_dims[of init n_in n_out hs] output_dims[of init n_in n_out hs]
    zip_chain[of n_in hs n_out]
  by simp

lemma wf_Linear: "wf_linear (Linear init name a b)"
  by (simp add: wf_linear_def)

lemma Network_wf:
  "list_all wf_linear
     (hidden_layers (Network init n_in n_out hs) @ [output (Network init n_in n_out hs)])"
  by (simp add: Network_def Let_def list_all_iff wf_Linear case_prod_unfold)

lemma network_of_Network: "network_of n_in n_out hs (Network init n_in n_out hs)"
  unfolding network_of_def using Network_dims Network_wf by blast

text \<open>The two networks the checkpoint notebook prints have the layers the model gives.\<close>

lemma Network_printed_trained:
  "map (\<lambda>l. (in_features l, out_features l))
     (hidden_layers (Network init 784 10 [512, 256, 128])
      @ [output (Network init 784 10 [512, 256, 128])])
   = [(784, 512), (512, 256), (256, 128), (128, 10)]"
  by (simp add: hidden_dims output_dims)

lemma Network_printed_other:
  "map (\<lambda>l. (in_features l, out_features l))
     (hidden_layers (Network init 784 10 [400, 200, 100])
      @ [output (Network init 784 10 [400, 200, 100])])
   = [(784, 400), (400, 200), (200, 100), (100, 10)]"
  by (simp add: hidden_dims output_dims)

text \<open>
  C3. For every input width, output width and sequence of hidden widths, the empty
  sequence included, the constructed network has one affine transform more than it has
  hidden widths; the transforms' widths are the consecutive pairs of
  \<open>input # hidden @ [output]\<close>, the weight of each has shape \<open>[out, in]\<close> and its bias
  shape \<open>[out]\<close>, so each transform's output width is the next one's input width, the
  first takes the input width and the last gives the output width. With no hidden width
  the network is the single transform from input to output.
\<close>

theorem Network_shape_chain:
  "(let n = Network init n_in n_out hs; ls = hidden_layers n @ [output n] in
     length ls = length hs + 1 \<and>
     map (\<lambda>l. (in_features l, out_features l)) ls = zip (n_in # hs) (hs @ [n_out]) \<and>
     map (\<lambda>l. shape (weight l)) ls = map (\<lambda>(a, b). [b, a]) (zip (n_in # hs) (hs @ [n_out])) \<and>
     map (\<lambda>l. shape (bias l)) ls = map (\<lambda>(a, b). [b]) (zip (n_in # hs) (hs @ [n_out])) \<and>
     map out_features (butlast ls) = map in_features (tl ls) \<and>
     in_features (hd ls) = n_in \<and> out_features (last ls) = n_out)
   \<and> hidden_layers (Network init n_in n_out []) = []
   \<and> (in_features (output (Network init n_in n_out [])),
       out_features (output (Network init n_in n_out []))) = (n_in, n_out)"
proof -
  define n where "n = Network init n_in n_out hs"
  define ls where "ls = hidden_layers n @ [output n]"
  have dims: "map (\<lambda>l. (in_features l, out_features l)) ls = zip (n_in # hs) (hs @ [n_out])"
    unfolding ls_def n_def by (rule Network_dims)
  have wf: "list_all wf_linear ls"
    unfolding ls_def n_def by (rule Network_wf)
  have len: "length ls = length hs + 1"
    using arg_cong[OF dims, of length] by simp
  have ins: "map in_features ls = n_in # hs"
    using arg_cong[OF dims, of "map fst"] by (simp add: comp_def)
  have outs: "map out_features ls = hs @ [n_out]"
    using arg_cong[OF dims, of "map snd"] by (simp add: comp_def)
  have w: "map (\<lambda>l. shape (weight l)) ls
             = map (\<lambda>(a, b). [b, a]) (zip (n_in # hs) (hs @ [n_out]))"
    using wf unfolding dims[symmetric] by (induction ls) (auto simp: wf_linear_def)
  have b: "map (\<lambda>l. shape (bias l)) ls = map (\<lambda>(a, b). [b]) (zip (n_in # hs) (hs @ [n_out]))"
    using wf unfolding dims[symmetric] by (induction ls) (auto simp: wf_linear_def)
  have ne: "ls \<noteq> []" using len by auto
  have chain: "map out_features (butlast ls) = map in_features (tl ls)"
    using ins outs by (simp add: map_butlast map_tl)
  have first: "in_features (hd ls) = n_in"
    using ins ne by (cases ls) auto
  have last: "out_features (last ls) = n_out"
    using outs ne by (metis last_map last_snoc)
  have general: "(let n = Network init n_in n_out hs; ls = hidden_layers n @ [output n] in
     length ls = length hs + 1 \<and>
     map (\<lambda>l. (in_features l, out_features l)) ls = zip (n_in # hs) (hs @ [n_out]) \<and>
     map (\<lambda>l. shape (weight l)) ls = map (\<lambda>(a, b). [b, a]) (zip (n_in # hs) (hs @ [n_out])) \<and>
     map (\<lambda>l. shape (bias l)) ls = map (\<lambda>(a, b). [b]) (zip (n_in # hs) (hs @ [n_out])) \<and>
     map out_features (butlast ls) = map in_features (tl ls) \<and>
     in_features (hd ls) = n_in \<and> out_features (last ls) = n_out)"
    unfolding Let_def n_def[symmetric] ls_def[symmetric]
    using len dims w b chain first last by blast
  have empty: "hidden_layers (Network init n_in n_out []) = []"
    by (simp add: Network_def)
  have direct: "(in_features (output (Network init n_in n_out [])),
       out_features (output (Network init n_in n_out []))) = (n_in, n_out)"
    by (simp add: output_dims)
  show ?thesis using general empty direct by blast
qed

section \<open>Flattening a batch\<close>

lemma resize_same:
  assumes "prod_list new = length (data t)"
  shows "data (resize garbage t new) = data t"
proof -
  have "map (\<lambda>i. if i < length (data t) then data t ! i else garbage i) [0..<length (data t)]
        = map (\<lambda>i. data t ! i) [0..<length (data t)]"
    by (rule map_cong) auto
  then show ?thesis using assms by (simp add: resize_def map_nth)
qed

lemma length_rows: "length (rows k xs) = length xs div k"
  by (simp add: rows_def)

lemma rows_full:
  assumes "length xs = n * k"
  shows "list_all (\<lambda>r. length r = k) (rows k xs)"
proof (cases "k = 0")
  case True
  then show ?thesis by (simp add: rows_def)
next
  case False
  have "length (take k (drop (i * k) xs)) = k" if "i < n" for i
  proof -
    from that have "Suc i \<le> n" by simp
    then have "Suc i * k \<le> n * k" by (rule mult_le_mono1)
    then have "k \<le> n * k - i * k" by simp
    then show ?thesis using assms by simp
  qed
  moreover have "length xs div k = n" using assms False by simp
  ultimately show ?thesis by (simp add: rows_def list_all_iff)
qed

text \<open>On a batch of 64 samples the flattening of the single training step is the
  flattening of the loop.\<close>

lemma flatten_first_batch_is_flatten_batch:
  "shape images = 64 # rest \<Longrightarrow>
     flatten_batch garbage images = Inr (flatten_first_batch garbage images)"
  by (simp add: flatten_batch_def flatten_first_batch_def)

text \<open>
  C8. A batch of \<open>n\<close> samples of 784 elements each (the images are 1 by 28 by 28) is
  flattened by the training loop into a tensor of shape \<open>[n, 784]\<close>: there are still \<open>n\<close>
  samples, every sample is a vector of length 784, and it holds the elements the sample
  held before, in the same order.
\<close>

theorem flatten_batch_samples:
  assumes "shape images = n # rest"
    and "prod_list rest = 784"
    and "length (data images) = n * 784"
  shows "\<exists>x. flatten_batch garbage images = Inr x \<and> shape x = [n, 784]
           \<and> samples x = samples images
           \<and> length (samples x) = n
           \<and> list_all (\<lambda>r. length r = 784) (samples x)"
proof -
  define x where "x = resize garbage images [n, 784]"
  have run: "flatten_batch garbage images = Inr x"
    using assms(1) by (simp add: flatten_batch_def x_def)
  have sh: "shape x = [n, 784]" by (simp add: x_def resize_def)
  have dt: "data x = data images"
    unfolding x_def using assms(3) by (intro resize_same) simp
  have same: "samples x = samples images"
    using sh dt assms(1,2) by (simp add: samples_def)
  have sx: "samples x = rows 784 (data images)"
    using sh dt by (simp add: samples_def)
  have len: "length (samples x) = n"
    using assms(3) by (simp add: sx length_rows)
  have each: "list_all (\<lambda>r. length r = 784) (samples x)"
    unfolding sx using assms(3) by (rule rows_full)
  show ?thesis using run sh same len each by blast
qed

theorem flatten_batch_samples_witness:
  "shape \<lparr>shape = [2, 1, 28, 28], data = replicate 784 1 @ replicate 784 2\<rparr> = 2 # [1, 28, 28]
   \<and> prod_list [1, 28, 28] = (784::nat)
   \<and> length (data \<lparr>shape = [2, 1, 28, 28], data = replicate 784 1 @ replicate 784 2\<rparr>)
       = 2 * 784
   \<and> (\<exists>x. flatten_batch (\<lambda>_. 0)
             \<lparr>shape = [2, 1, 28, 28], data = replicate 784 1 @ replicate 784 2\<rparr> = Inr x
          \<and> shape x = [2, 784]
          \<and> samples x
              = samples \<lparr>shape = [2, 1, 28, 28], data = replicate 784 1 @ replicate 784 2\<rparr>
          \<and> length (samples x) = 2
          \<and> list_all (\<lambda>r. length r = 784) (samples x))"
  using flatten_batch_samples[of
      "\<lparr>shape = [2, 1, 28, 28], data = replicate 784 1 @ replicate 784 2\<rparr>"
      2 "[1, 28, 28]" "\<lambda>_. 0"]
  by simp

section \<open>What the forward passes return\<close>

lemma forward_fc_softmax:
  "forward_fc n x = and_then (raw_logits [fc1 n, fc2 n] (fc3 n) x) softmax"
  by (simp add: forward_fc_def and_then_def split: sum.splits)

text \<open>The container of the network-building notebook ends in a softmax as well.\<close>

lemma model_softmax_forward:
  "sequential_forward training tape (model_softmax init) x pos
     = (and_then (raw_logits [Linear init ''fc1'' 784 128, Linear init ''fc2'' 128 64]
                    (Linear init ''output'' 64 10) x) softmax, pos)"
  by (simp add: model_softmax_def input_size_def hidden_sizes_def output_size_def and_then_def
      split: sum.splits)

text \<open>
  The network of the training notebook applies each hidden affine transform followed by
  the rectified-linear nonlinearity and returns the raw output of its final affine
  transform, for every input, in training and in evaluation mode, with the parameters it
  was built with and with any parameters written into it afterwards.
\<close>

lemma model_logits_forward:
  "sequential_forward training tape (model_logits init) x pos
     = (raw_logits [Linear init ''fc1'' 784 128, Linear init ''fc2'' 128 64]
          (Linear init ''logits'' 64 10) x, pos)
   \<and> sequential_forward training tape
        (set_parameters (model_logits init) [w1, b1, w2, b2, w3, b3]) x pos
     = (raw_logits [(Linear init ''fc1'' 784 128)\<lparr>weight := w1, bias := b1\<rparr>,
                    (Linear init ''fc2'' 128 64)\<lparr>weight := w2, bias := b2\<rparr>]
          ((Linear init ''logits'' 64 10)\<lparr>weight := w3, bias := b3\<rparr>) x, pos)"
  by (simp add: model_logits_def input_size_def hidden_sizes_def output_size_def and_then_def
      split: sum.splits)

text \<open>A layer whose weights are all zero returns its bias.\<close>

lemma rows_single: "0 < a \<Longrightarrow> length xs = a \<Longrightarrow> rows a xs = [xs]"
  by (simp add: rows_def)

lemma rows_zero:
  assumes "0 < a"
  shows "rows a (replicate (b * a) 0) = replicate b (replicate a 0)"
proof -
  have "take a (drop (i * a) (replicate (b * a) (0::real))) = replicate a 0" if "i < b" for i
  proof -
    from that have "Suc i \<le> b" by simp
    then have "Suc i * a \<le> b * a" by (rule mult_le_mono1)
    then have "a \<le> b * a - i * a" by simp
    then show ?thesis by (simp add: min_def)
  qed
  then have "map (\<lambda>i. take a (drop (i * a) (replicate (b * a) (0::real)))) [0..<b]
             = map (\<lambda>i. replicate a 0) [0..<b]"
    by (intro map_cong) auto
  then show ?thesis using assms by (simp add: rows_def map_replicate_const)
qed

lemma dot_zero: "dot r (replicate a 0) = 0"
proof (induction r arbitrary: a)
  case Nil
  then show ?case by (simp add: dot_def)
next
  case (Cons x r)
  then show ?case by (cases a) (auto simp: dot_def)
qed

lemma map2_zero_rows:
  "length bs = b \<Longrightarrow> map2 (\<lambda>w c. dot r w + c) (replicate b (replicate a 0)) bs = bs"
  by (induction bs arbitrary: b) (auto simp: dot_zero)

lemma linear_zero_weight:
  assumes "shape x = [1, a]" "length (data x) = a" "0 < a"
    and "in_features l = a" "out_features l = b"
    and "data (weight l) = replicate (b * a) 0" "length (data (bias l)) = b"
  shows "linear_forward l x = Inr \<lparr>shape = [1, b], data = data (bias l)\<rparr>"
  using assms by (simp add: linear_forward_def rows_single rows_zero map2_zero_rows)

lemma Linear_zero:
  "data (weight (Linear (\<lambda>_ _. 0) name a b)) = replicate (b * a) 0"
  "data (bias (Linear (\<lambda>_ _. 0) name a b)) = replicate b 0"
  by (simp_all add: Linear_def map_replicate_const)

lemma linear_zero:
  assumes "shape x = [1, a]" "length (data x) = a" "0 < a"
  shows "linear_forward (Linear (\<lambda>_ _. 0) name a b) x
           = Inr \<lparr>shape = [1, b], data = replicate b 0\<rparr>"
  using linear_zero_weight[OF assms, of "Linear (\<lambda>_ _. 0) name a b" b]
  by (simp add: Linear_zero)

lemma relu_zero:
  "relu \<lparr>shape = s, data = replicate n 0\<rparr> = \<lparr>shape = s, data = replicate n 0\<rparr>"
  by (simp add: relu_def)

lemma raw_zero:
  "raw_logits [fc1 (Network_fc (\<lambda>_ _. 0)), fc2 (Network_fc (\<lambda>_ _. 0))]
     (fc3 (Network_fc (\<lambda>_ _. 0))) \<lparr>shape = [1, 784], data = replicate 784 0\<rparr>
   = Inr \<lparr>shape = [1, 10], data = replicate 10 0\<rparr>"
  by (simp add: Network_fc_def and_then_def linear_zero relu_zero)

lemma softmax_zeros: "softmax_dim1 10 1 (replicate 10 0) = replicate 10 (1 / 10)"
proof (rule nth_equalityI)
  show "length (softmax_dim1 10 1 (replicate 10 0)) = length (replicate 10 (1 / 10 :: real))"
    by (simp add: softmax_dim1_def)
next
  fix i
  assume "i < length (softmax_dim1 10 1 (replicate 10 0))"
  then have i: "i < 10" by (simp add: softmax_dim1_def)
  have "map (\<lambda>j. exp (replicate 10 (0::real) ! (i div 10 * 10 + j * 1 + i mod 1))) [0..<10]
        = map (\<lambda>j. 1) [0..<10]"
    using i by (intro map_cong) simp_all
  then have "sum_list (map (\<lambda>j. exp (replicate 10 (0::real)
                                        ! (i div (10 * 1) * (10 * 1) + j * 1 + i mod 1)))
                         [0..<10]) = 10"
    by (simp add: sum_list_replicate map_replicate_const)
  then show "softmax_dim1 10 1 (replicate 10 0) ! i = replicate 10 (1 / 10) ! i"
    using i by (simp add: softmax_dim1_def)
qed

text \<open>
  C4. The forward pass is to return the raw output of the final affine transform, with no
  terminal nonlinearity, and the docstring of \<^verbatim>\<open>Network.forward\<close> in the
  network-building notebook says that it ``returns the output logits''. It does not: its
  last statement is \<^verbatim>\<open>x = F.softmax(x, dim=1)\<close>. With all parameters zero and a
  zero image the raw output of the final affine transform is ten zeros, and the forward
  pass returns another tensor, their softmax (ten tenths).
\<close>

theorem forward_fc_not_raw_logits:
  "forward_fc (Network_fc (\<lambda>_ _. 0)) \<lparr>shape = [1, 784], data = replicate 784 0\<rparr>
     = Inr \<lparr>shape = [1, 10], data = replicate 10 (1 / 10)\<rparr>
   \<and> raw_logits [fc1 (Network_fc (\<lambda>_ _. 0)), fc2 (Network_fc (\<lambda>_ _. 0))]
        (fc3 (Network_fc (\<lambda>_ _. 0))) \<lparr>shape = [1, 784], data = replicate 784 0\<rparr>
     = Inr \<lparr>shape = [1, 10], data = replicate 10 0\<rparr>
   \<and> forward_fc (Network_fc (\<lambda>_ _. 0)) \<lparr>shape = [1, 784], data = replicate 784 0\<rparr>
     \<noteq> raw_logits [fc1 (Network_fc (\<lambda>_ _. 0)), fc2 (Network_fc (\<lambda>_ _. 0))]
          (fc3 (Network_fc (\<lambda>_ _. 0))) \<lparr>shape = [1, 784], data = replicate 784 0\<rparr>"
proof -
  have returned: "forward_fc (Network_fc (\<lambda>_ _. 0))
                    \<lparr>shape = [1, 784], data = replicate 784 0\<rparr>
                  = Inr \<lparr>shape = [1, 10], data = replicate 10 (1 / 10)\<rparr>"
    unfolding forward_fc_softmax raw_zero
    by (simp del: One_nat_def add: and_then_def softmax_def softmax_zeros)
  have "replicate 10 (1 / 10 :: real) \<noteq> replicate 10 0"
    by (simp add: replicate_eq_replicate)
  then show ?thesis
    unfolding returned raw_zero by simp
qed

section \<open>Forward passes without dropout\<close>

lemma module_forward_indep:
  assumes "training \<longrightarrow> \<not> is_dropout m"
  shows "module_forward training tape m x pos
           = (fst (module_forward training tape' m x pos'), pos)"
  using assms by (cases m) (auto simp: dropout_def)

lemma dropout_disabled_Cons:
  "dropout_disabled training ((name, m) # ms)
     = ((training \<longrightarrow> \<not> is_dropout m) \<and> dropout_disabled training ms)"
  by (auto simp: dropout_disabled_def)

lemma sequential_forward_indep:
  assumes "dropout_disabled training ms"
  shows "sequential_forward training tape ms x pos
           = (fst (sequential_forward training tape' ms x pos'), pos)"
  using assms
proof (induction ms arbitrary: x)
  case Nil
  then show ?case by simp
next
  case (Cons nm ms)
  obtain name m where nm: "nm = (name, m)" by (cases nm)
  from Cons.prems have m: "training \<longrightarrow> \<not> is_dropout m"
    and rest: "dropout_disabled training ms"
    by (simp_all add: nm dropout_disabled_Cons)
  have step: "module_forward training tape m x pos
                = (fst (module_forward training tape' m x pos'), pos)"
    by (rule module_forward_indep[OF m])
  have step': "module_forward training tape' m x pos'
                = (fst (module_forward training tape' m x pos'), pos')"
    by (rule module_forward_indep[OF m])
  show ?case
  proof (cases "fst (module_forward training tape' m x pos')")
    case (Inl e)
    then show ?thesis using step step' by (simp add: nm)
  next
    case (Inr y)
    then show ?thesis using step step' Cons.IH[OF rest, of y] by (simp add: nm)
  qed
qed

lemma dropout_free_model_logits: "dropout_disabled training (model_logits init)"
  by (simp add: dropout_disabled_def model_logits_def)

text \<open>With dropout at work the output does depend on the random draws.\<close>

lemma dropout_depends_on_tape:
  "fst (dropout (1 / 2) True (\<lambda>_. True) \<lparr>shape = [1], data = [1]\<rparr> 0)
   \<noteq> fst (dropout (1 / 2) True (\<lambda>_. False) \<lparr>shape = [1], data = [1]\<rparr> 0)"
  by (simp add: dropout_def)

text \<open>
  C7. With dropout disabled (the container is in evaluation mode, or holds no dropout
  module, as the network of the training notebook), two forward passes one after the other
  on the same input and the same parameters give the same output, and the output does not
  depend on the random draws or on how far the generator has advanced. The same holds for
  the checkpointed network in evaluation mode.
\<close>

theorem forward_passes_identical:
  assumes "dropout_disabled training ms"
  shows "(case sequential_forward training tape ms x pos of
            (y1, pos1) \<Rightarrow>
              (case sequential_forward training tape ms x pos1 of
                 (y2, pos2) \<Rightarrow> y1 = y2 \<and> pos1 = pos \<and> pos2 = pos))
         \<and> fst (sequential_forward training tape ms x pos)
             = fst (sequential_forward training tape' ms x pos')
         \<and> fst (Network_forward False tape n x pos) = fst (Network_forward False tape' n x pos')
         \<and> snd (Network_forward False tape n x pos) = pos"
proof -
  have a: "sequential_forward training tape ms x p
             = (fst (sequential_forward training tape' ms x pos'), p)" for p
    by (rule sequential_forward_indep[OF assms])
  have off: "dropout_disabled False qs" for qs by (simp add: dropout_disabled_def)
  have c: "Network_forward False tape n x pos
             = (fst (Network_forward False tape' n x pos'), pos)"
    unfolding Network_forward_def by (rule sequential_forward_indep[OF off])
  show ?thesis using a c by simp
qed

theorem forward_passes_identical_witness:
  "dropout_disabled True (model_logits (\<lambda>_ _. 0))
   \<and> (case sequential_forward True (\<lambda>_. True) (model_logits (\<lambda>_ _. 0))
             \<lparr>shape = [1, 784], data = replicate 784 1\<rparr> 0 of
        (y1, pos1) \<Rightarrow>
          (case sequential_forward True (\<lambda>_. True) (model_logits (\<lambda>_ _. 0))
                  \<lparr>shape = [1, 784], data = replicate 784 1\<rparr> pos1 of
             (y2, pos2) \<Rightarrow> y1 = y2 \<and> pos1 = 0 \<and> pos2 = 0))
   \<and> fst (sequential_forward True (\<lambda>_. True) (model_logits (\<lambda>_ _. 0))
            \<lparr>shape = [1, 784], data = replicate 784 1\<rparr> 0)
       = fst (sequential_forward True (\<lambda>_. False) (model_logits (\<lambda>_ _. 0))
            \<lparr>shape = [1, 784], data = replicate 784 1\<rparr> 7)"
proof -
  have h: "dropout_disabled True (model_logits (\<lambda>_ _. 0))"
    by (rule dropout_free_model_logits)
  show ?thesis
    using h forward_passes_identical[OF h, where tape = "\<lambda>_. True" and tape' = "\<lambda>_. False"
        and pos = 0 and pos' = 7 and x = "\<lparr>shape = [1, 784], data = replicate 784 1\<rparr>"]
    by simp
qed

section \<open>Training steps\<close>

lemma zero_grad_fields [simp]:
  "model (zero_grad s) = model s" "rng_pos (zero_grad s) = rng_pos s"
  "optimizer (zero_grad s) = optimizer s" "grad_enabled (zero_grad s) = grad_enabled s"
  "grads (zero_grad s) i = map_option (map (\<lambda>_. 0)) (grads s i)"
  by (simp_all add: zero_grad_def)

lemma backward_fields [simp]:
  "model (backward ag tape p s x y) = model s" "rng_pos (backward ag tape p s x y) = rng_pos s"
  "optimizer (backward ag tape p s x y) = optimizer s"
  "grad_enabled (backward ag tape p s x y) = grad_enabled s"
  "grads (backward ag tape p s x y) i =
     (if i < length (parameters (model s))
      then Some (accumulate (grads s i) (ag tape p (parameters (model s)) x y i))
      else grads s i)"
  by (simp_all add: backward_def)

lemma forward_backward_model [simp]:
  "model (snd (forward_backward ag tape s x y)) = model s"
  "optimizer (snd (forward_backward ag tape s x y)) = optimizer s"
  "grad_enabled (snd (forward_backward ag tape s x y)) = grad_enabled s"
  by (auto simp: forward_backward_def split: prod.splits sum.splits)

lemma forward_backward_returned:
  assumes "dropout_disabled True (model s)"
    and "returned (fst (forward_backward ag tape s x y))"
  shows "snd (forward_backward ag tape s x y) = backward ag tape (rng_pos s) s x y"
proof -
  have "sequential_forward True tape (model s) x (rng_pos s)
          = (fst (sequential_forward True tape (model s) x (rng_pos s)), rng_pos s)"
    by (rule sequential_forward_indep[OF assms(1)])
  then obtain r where r: "sequential_forward True tape (model s) x (rng_pos s) = (r, rng_pos s)"
    by metis
  show ?thesis using assms(2)
    by (auto simp: forward_backward_def r returned_def split: sum.splits)
qed

lemma forward_backward_result:
  assumes "model s' = model s" "rng_pos s' = rng_pos s"
  shows "fst (forward_backward ag tape s' x y) = fst (forward_backward ag tape s x y)"
  using assms by (auto simp: forward_backward_def split: prod.splits sum.splits)

lemma add_zeros: "map2 (+) (map (\<lambda>_. 0) xs) g = take (length xs) (g::real list)"
proof (induction xs arbitrary: g)
  case Nil
  show ?case by simp
next
  case (Cons x xs)
  show ?case by (cases g) (simp_all add: Cons.IH)
qed

lemma accumulate_zeroed:
  "accumulate (map_option (map (\<lambda>_. 0)) old) g
     = (case old of None \<Rightarrow> g | Some a \<Rightarrow> take (length a) g)"
  by (cases old) (simp_all add: accumulate_def add_zeros)

lemma accumulate_after_reset:
  "accumulate (Some (map (\<lambda>_. 0) (accumulate (map_option (map (\<lambda>_. 0)) old) g))) g
     = accumulate (map_option (map (\<lambda>_. 0)) old) g"
  by (cases old) (simp_all add: accumulate_def add_zeros min_def)

lemma add_take: "map2 (+) (take k g) g = map2 (+) (take k g) (take k (g::real list))"
proof (induction g arbitrary: k)
  case Nil
  show ?case by simp
next
  case (Cons x g)
  show ?case by (cases k) (simp_all add: Cons.IH)
qed

lemma accumulate_without_reset:
  "accumulate (Some (accumulate (map_option (map (\<lambda>_. 0)) old) g)) g
     = map2 (+) (accumulate (map_option (map (\<lambda>_. 0)) old) g)
         (accumulate (map_option (map (\<lambda>_. 0)) old) g)"
proof (cases old)
  case None
  then show ?thesis by (simp add: accumulate_def)
next
  case (Some a)
  have "accumulate (map_option (map (\<lambda>_. 0)) old) g = take (length a) g"
    unfolding Some by (simp add: accumulate_def add_zeros)
  moreover have "accumulate (Some (take (length a) g)) g = map2 (+) (take (length a) g) g"
    by (simp add: accumulate_def)
  ultimately show ?thesis by (simp add: add_take)
qed

lemma accumulate_into_zeros:
  assumes "\<forall>a. old = Some a \<longrightarrow> length a = length g"
  shows "accumulate (map_option (map (\<lambda>_. 0)) old) g = g"
  using assms by (cases old) (simp_all add: accumulate_def add_zeros)

lemma accumulate_reset: "accumulate (Some (map (\<lambda>_. 0) g)) g = g"
  by (simp add: accumulate_def add_zeros)

lemma length_parameters:
  "length (parameters ms) = 2 * length (filter (\<lambda>(name, m). is_linear m) ms)"
  by (induction ms rule: parameters.induct) simp_all

text \<open>
  C5. For a fixed batch and fixed parameters, in a model without dropout at work, with
  \<open>g i\<close> the gradient that the backward pass computes for the i-th parameter (the
  gradient buffers that exist already having its size): the forward and backward pass run
  after a gradient reset stores \<open>g i\<close> for every parameter; run again after another
  reset it stores \<open>g i\<close> again, the same values, and returns the same loss; run again
  without the reset it stores \<open>g i + g i\<close>, the sum of the two single-batch
  gradients. The parameters, a weight and a bias for every linear layer, are the same
  throughout.
\<close>

theorem gradient_reset_and_accumulation:
  assumes "dropout_disabled True (model s)"
    and "returned (fst (forward_backward ag tape (zero_grad s) images labels))"
    and "\<forall>i < length (parameters (model s)). \<forall>a. grads s i = Some a \<longrightarrow>
           length a = length (ag tape (rng_pos s) (parameters (model s)) images labels i)"
  shows "(let g = ag tape (rng_pos s) (parameters (model s)) images labels;
              n = length (parameters (model s));
              first = snd (forward_backward ag tape (zero_grad s) images labels);
              with_reset = forward_backward ag tape (zero_grad first) images labels;
              without_reset = forward_backward ag tape first images labels
          in (\<forall>i < n. grads first i = Some (g i))
             \<and> (\<forall>i < n. grads (snd with_reset) i = Some (g i))
             \<and> (\<forall>i < n. grads (snd without_reset) i = Some (map2 (+) (g i) (g i)))
             \<and> grads (snd with_reset) = grads first
             \<and> fst with_reset = fst (forward_backward ag tape (zero_grad s) images labels)
             \<and> returned (fst without_reset)
             \<and> parameters (model (snd with_reset)) = parameters (model s)
             \<and> parameters (model (snd without_reset)) = parameters (model s)
             \<and> n = 2 * length (filter (\<lambda>(name, m). is_linear m) (model s)))"
proof -
  define z where "z = zero_grad s"
  define first where "first = snd (forward_backward ag tape z images labels)"
  define g where "g = ag tape (rng_pos s) (parameters (model s)) images labels"
  define n where "n = length (parameters (model s))"
  have dz: "dropout_disabled True (model z)" using assms(1) by (simp add: z_def)
  have first_eq: "first = backward ag tape (rng_pos s) z images labels"
    unfolding first_def using forward_backward_returned[OF dz] assms(2)
    by (simp add: z_def)
  have first_model: "model first = model s" and first_pos: "rng_pos first = rng_pos s"
    by (simp_all add: first_eq z_def)
  have sizes: "\<forall>a. grads s i = Some a \<longrightarrow> length a = length (g i)" if "i < n" for i
    using assms(3) that by (simp add: g_def n_def)
  have first_grads: "grads first i = Some (g i)" if "i < n" for i
    using that accumulate_into_zeros[OF sizes[OF that]]
    by (simp add: first_eq z_def g_def n_def)
  have first_rest: "grads first i = map_option (map (\<lambda>_. 0)) (grads s i)" if "\<not> i < n" for i
    using that by (simp add: first_eq z_def n_def)
  have same_result: "fst (forward_backward ag tape s' images labels)
                       = fst (forward_backward ag tape z images labels)"
    if "model s' = model s" "rng_pos s' = rng_pos s" for s'
    using that by (intro forward_backward_result) (simp_all add: z_def)
  have ret: "returned (fst (forward_backward ag tape s' images labels))"
    if "model s' = model s" "rng_pos s' = rng_pos s" for s'
    using same_result[OF that] assms(2) by (simp add: z_def)
  have run: "snd (forward_backward ag tape s' images labels)
               = backward ag tape (rng_pos s) s' images labels"
    if "model s' = model s" "rng_pos s' = rng_pos s" for s'
    using forward_backward_returned[OF _ ret[OF that]] assms(1) that by simp
  have with_reset: "snd (forward_backward ag tape (zero_grad first) images labels)
                      = backward ag tape (rng_pos s) (zero_grad first) images labels"
    by (rule run) (simp_all add: first_model first_pos)
  have without_reset: "snd (forward_backward ag tape first images labels)
                      = backward ag tape (rng_pos s) first images labels"
    by (rule run) (simp_all add: first_model first_pos)
  have a: "grads (snd (forward_backward ag tape (zero_grad first) images labels)) i
             = Some (g i)" if "i < n" for i
    unfolding with_reset using that accumulate_reset[of "g i"]
    by (simp add: first_model first_grads[OF that] n_def[symmetric] g_def[symmetric])
  have a': "grads (snd (forward_backward ag tape (zero_grad first) images labels)) = grads first"
  proof
    fix i
    show "grads (snd (forward_backward ag tape (zero_grad first) images labels)) i
            = grads first i"
    proof (cases "i < n")
      case True
      then show ?thesis by (simp add: a first_grads)
    next
      case False
      then show ?thesis
        unfolding with_reset
        by (cases "grads s i") (simp_all add: first_model first_rest n_def[symmetric])
    qed
  qed
  have b: "fst (forward_backward ag tape (zero_grad first) images labels)
             = fst (forward_backward ag tape z images labels)"
    by (rule same_result) (simp_all add: first_model first_pos)
  have c: "grads (snd (forward_backward ag tape first images labels)) i
             = Some (map2 (+) (g i) (g i))" if "i < n" for i
    unfolding without_reset using that
    by (simp add: first_model first_grads[OF that] n_def[symmetric] g_def[symmetric]
        accumulate_def)
  have d: "returned (fst (forward_backward ag tape first images labels))"
    by (rule ret) (simp_all add: first_model first_pos)
  have e: "n = 2 * length (filter (\<lambda>(name, m). is_linear m) (model s))"
    unfolding n_def by (rule length_parameters)
  show ?thesis
    unfolding Let_def z_def[symmetric] first_def[symmetric] g_def[symmetric] n_def[symmetric]
    using a a' b c d e first_grads
    by (simp add: first_model)
qed

lemma model_logits_zero:
  "sequential_forward True tape (model_logits (\<lambda>_ _. 0))
     \<lparr>shape = [1, 784], data = replicate 784 0\<rparr> pos
   = (Inr \<lparr>shape = [1, 10], data = replicate 10 0\<rparr>, pos)"
  by (simp add: model_logits_def input_size_def hidden_sizes_def output_size_def
      linear_zero relu_zero)

lemma forward_backward_example:
  "returned (fst (forward_backward ag tape (zero_grad (fresh_session (\<lambda>_ _. 0)))
                    \<lparr>shape = [1, 784], data = replicate 784 0\<rparr> [3]))"
  by (simp del: One_nat_def
      add: forward_backward_def fresh_session_def model_logits_zero cross_entropy_def
        returned_def)

lemma length_parameters_model_logits: "length (parameters (model_logits init)) = 6"
  by (simp add: model_logits_def)

text \<open>
  The training notebook's model with all parameters zero, on a zero image labelled 3,
  before any gradient was computed: the first run stores the example gradient, for the last
  bias one tenth everywhere but at the label; the run after a reset stores it again, and
  the run without reset stores twice that.
\<close>

theorem gradient_reset_and_accumulation_witness:
  "dropout_disabled True (model (fresh_session (\<lambda>_ _. 0)))
   \<and> returned (fst (forward_backward example_gradient (\<lambda>_. True)
                      (zero_grad (fresh_session (\<lambda>_ _. 0)))
                      \<lparr>shape = [1, 784], data = replicate 784 0\<rparr> [3]))
   \<and> grads (fresh_session (\<lambda>_ _. 0)) = (\<lambda>_. None)
   \<and> length (parameters (model (fresh_session (\<lambda>_ _. 0)))) = 6
   \<and> (let first = snd (forward_backward example_gradient (\<lambda>_. True)
                          (zero_grad (fresh_session (\<lambda>_ _. 0)))
                          \<lparr>shape = [1, 784], data = replicate 784 0\<rparr> [3]);
           with_reset = forward_backward example_gradient (\<lambda>_. True) (zero_grad first)
                          \<lparr>shape = [1, 784], data = replicate 784 0\<rparr> [3];
           without_reset = forward_backward example_gradient (\<lambda>_. True) first
                          \<lparr>shape = [1, 784], data = replicate 784 0\<rparr> [3]
       in grads first 5
            = Some [1 / 10, 1 / 10, 1 / 10, - (9 / 10), 1 / 10, 1 / 10, 1 / 10, 1 / 10,
                    1 / 10, 1 / 10]
          \<and> grads (snd with_reset) 5
            = Some [1 / 10, 1 / 10, 1 / 10, - (9 / 10), 1 / 10, 1 / 10, 1 / 10, 1 / 10,
                    1 / 10, 1 / 10]
          \<and> grads (snd without_reset) 5
            = Some [1 / 5, 1 / 5, 1 / 5, - (9 / 5), 1 / 5, 1 / 5, 1 / 5, 1 / 5, 1 / 5, 1 / 5])"
proof -
  have d: "dropout_disabled True (model (fresh_session (\<lambda>_ _. 0)))"
    by (simp add: fresh_session_def dropout_free_model_logits)
  note r = forward_backward_example[of example_gradient "\<lambda>_. True"]
  have z: "\<forall>i < length (parameters (model (fresh_session (\<lambda>_ _. 0)))).
             \<forall>a. grads (fresh_session (\<lambda>_ _. 0)) i = Some a \<longrightarrow>
               length a = length (example_gradient (\<lambda>_. True)
                 (rng_pos (fresh_session (\<lambda>_ _. 0)))
                 (parameters (model (fresh_session (\<lambda>_ _. 0))))
                 \<lparr>shape = [1, 784], data = replicate 784 0\<rparr> [3] i)"
    by (simp add: fresh_session_def)
  have n: "length (parameters (model (fresh_session (\<lambda>_ _. 0)))) = 6"
    by (simp add: fresh_session_def length_parameters_model_logits)
  have g: "example_gradient tape pos ps x y 5
             = [1 / 10, 1 / 10, 1 / 10, - (9 / 10), 1 / 10, 1 / 10, 1 / 10, 1 / 10,
                1 / 10, 1 / 10]" for tape pos ps x y
    by (simp add: example_gradient_def)
  have e: "grads (fresh_session (\<lambda>_ _. 0)) = (\<lambda>_. None)"
    by (simp add: fresh_session_def)
  show ?thesis
    using d r e n gradient_reset_and_accumulation[OF d r z]
    by (simp add: Let_def g)
qed

lemma parameters_set_parameters:
  "length ps = length (parameters ms) \<Longrightarrow> parameters (set_parameters ms ps) = ps"
  by (induction ms ps rule: set_parameters.induct) simp_all

lemma names_set_parameters: "map fst (set_parameters ms ps) = map fst ms"
  by (induction ms ps rule: set_parameters.induct) simp_all

lemma step_optimizer_sgd:
  assumes "optimizer s = SGD lr"
  shows "grads (step_optimizer s) = grads s"
    and "optimizer (step_optimizer s) = SGD lr"
    and "map fst (model (step_optimizer s)) = map fst (model s)"
    and "parameters (model (step_optimizer s))
           = map (\<lambda>(i, p). case grads s i of
                              None \<Rightarrow> p
                            | Some g \<Rightarrow> p\<lparr>data := sgd_update lr (data p) g\<rparr>)
               (enumerate 0 (parameters (model s)))"
  using assms
  by (simp_all add: step_optimizer_def names_set_parameters parameters_set_parameters)

lemma sgd_update_minus: "sgd_update lr p g = map2 (\<lambda>x d. x - lr * d) p g"
  by (simp add: sgd_update_def)

lemma training_step_returned:
  assumes "returned (fst (training_step ag tape garbage s images labels))"
  shows "\<exists>x p. flatten_batch garbage images = Inr x
           \<and> snd (training_step ag tape garbage s images labels)
               = step_optimizer (backward ag tape (rng_pos s) ((zero_grad s)\<lparr>rng_pos := p\<rparr>)
                                   x labels)"
  using assms
  by (auto simp: training_step_def forward_backward_def returned_def
      split: sum.splits prod.splits)

text \<open>
  C6, as amended. In a training step of the training notebook's loop, whose optimizer is
  \<^verbatim>\<open>optim.SGD\<close>, every parameter has a gradient after the backward pass and is
  replaced by itself minus the learning rate times that gradient; the modules of the model
  and the optimizer stay the same objects, and the step gives back the loss only.
\<close>

theorem sgd_training_step:
  assumes "optimizer s = SGD lr"
    and "returned (fst (training_step ag tape garbage s images labels))"
  shows "(let s' = snd (training_step ag tape garbage s images labels) in
            parameters (model s')
              = map (\<lambda>(i, p). p\<lparr>data := map2 (\<lambda>x d. x - lr * d) (data p) (the (grads s' i))\<rparr>)
                  (enumerate 0 (parameters (model s)))
            \<and> list_all (\<lambda>i. grads s' i \<noteq> None) [0..<length (parameters (model s))]
            \<and> map fst (model s') = map fst (model s)
            \<and> optimizer s' = SGD lr)"
proof -
  obtain x p where
    s': "snd (training_step ag tape garbage s images labels)
           = step_optimizer (backward ag tape (rng_pos s) ((zero_grad s)\<lparr>rng_pos := p\<rparr>)
                               x labels)"
    using training_step_returned[OF assms(2)] by blast
  define b where "b = backward ag tape (rng_pos s) ((zero_grad s)\<lparr>rng_pos := p\<rparr>) x labels"
  have opt: "optimizer b = SGD lr" using assms(1) by (simp add: b_def)
  have mb: "model b = model s" by (simp add: b_def)
  have gb: "grads b i \<noteq> None" if "i < length (parameters (model s))" for i
    using that by (simp add: b_def)
  note st = step_optimizer_sgd[OF opt]
  have "map (\<lambda>(i, p). case grads b i of
                         None \<Rightarrow> p
                       | Some g \<Rightarrow> p\<lparr>data := sgd_update lr (data p) g\<rparr>)
          (enumerate 0 (parameters (model s)))
        = map (\<lambda>(i, p). p\<lparr>data := map2 (\<lambda>x d. x - lr * d) (data p) (the (grads b i))\<rparr>)
            (enumerate 0 (parameters (model s)))"
  proof (rule map_cong[OF refl])
    fix ip assume "ip \<in> set (enumerate 0 (parameters (model s)))"
    then have "fst ip < length (parameters (model s))"
      by (simp add: in_set_enumerate_eq)
    then show "(case ip of (i, p) \<Rightarrow> case grads b i of
                         None \<Rightarrow> p
                       | Some g \<Rightarrow> p\<lparr>data := sgd_update lr (data p) g\<rparr>)
               = (case ip of (i, p) \<Rightarrow>
                    p\<lparr>data := map2 (\<lambda>x d. x - lr * d) (data p) (the (grads b i))\<rparr>)"
      using gb[of "fst ip"] by (cases ip) (auto simp: sgd_update_minus)
  qed
  then have params: "parameters (model (step_optimizer b))
      = map (\<lambda>(i, p). p\<lparr>data := map2 (\<lambda>x d. x - lr * d) (data p)
                                    (the (grads (step_optimizer b) i))\<rparr>)
          (enumerate 0 (parameters (model s)))"
    by (simp add: st mb)
  have all: "list_all (\<lambda>i. grads (step_optimizer b) i \<noteq> None)
               [0..<length (parameters (model s))]"
    using gb by (simp add: st list_all_iff)
  show ?thesis
    unfolding Let_def s' b_def[symmetric]
    using params all st(2,3) mb by simp
qed

lemma training_step_example:
  "returned (fst (training_step ag tape garbage (fresh_session (\<lambda>_ _. 0))
                    \<lparr>shape = [1, 1, 28, 28], data = replicate 784 0\<rparr> [3]))"
proof -
  have "resize garbage \<lparr>shape = [1, 1, 28, 28], data = replicate 784 0\<rparr> [1, 784]
          = \<lparr>shape = [1, 784], data = replicate 784 0\<rparr>"
    using resize_same[of "[1, 784]" "\<lparr>shape = [1, 1, 28, 28], data = replicate 784 0\<rparr>" garbage]
    by (simp add: resize_def)
  then have "flatten_batch garbage \<lparr>shape = [1, 1, 28, 28], data = replicate 784 0\<rparr>
          = Inr \<lparr>shape = [1, 784], data = replicate 784 0\<rparr>"
    by (simp add: flatten_batch_def)
  then show ?thesis
    using forward_backward_example[of ag tape]
    by (auto simp: training_step_def returned_def split: sum.splits prod.splits)
qed

theorem sgd_training_step_witness:
  "optimizer (fresh_session (\<lambda>_ _. 0)) = SGD (1 / 100)
   \<and> returned (fst (training_step (\<lambda>tape pos ps x y i. map (\<lambda>_. 1) (data (ps ! i)))
                       (\<lambda>_. True) (\<lambda>_. 0) (fresh_session (\<lambda>_ _. 0))
                       \<lparr>shape = [1, 1, 28, 28], data = replicate 784 0\<rparr> [3]))
   \<and> (let s' = snd (training_step (\<lambda>tape pos ps x y i. map (\<lambda>_. 1) (data (ps ! i)))
                       (\<lambda>_. True) (\<lambda>_. 0) (fresh_session (\<lambda>_ _. 0))
                       \<lparr>shape = [1, 1, 28, 28], data = replicate 784 0\<rparr> [3]) in
         parameters (model s')
           = map (\<lambda>(i, p). p\<lparr>data := map2 (\<lambda>x d. x - (1 / 100) * d) (data p)
                                         (the (grads s' i))\<rparr>)
               (enumerate 0 (parameters (model (fresh_session (\<lambda>_ _. 0)))))
         \<and> optimizer s' = SGD (1 / 100))"
proof -
  have o: "optimizer (fresh_session (\<lambda>_ _. 0)) = SGD (1 / 100)"
    by (simp add: fresh_session_def)
  note r = training_step_example[of "\<lambda>tape pos ps x y i. map (\<lambda>_. 1) (data (ps ! i))"
      "\<lambda>_. True" "\<lambda>_. 0"]
  show ?thesis
    using o r sgd_training_step[OF o r] by (simp add: Let_def)
qed

text \<open>
  C6 as stated fails on the checkpoint notebook, which trains with
  \<^verbatim>\<open>optim.Adam(model.parameters(), lr=0.001)\<close>. Its first step on a parameter of
  value 0 with gradient 1 does not give \<open>0 - 0.001 * 1\<close>.
\<close>

theorem adam_step_not_gradient_step:
  "map data (fst (optimizer_step (Adam (1 / 1000) (\<lambda>_. None)) (\<lambda>_. Some [1])
                    [\<lparr>shape = [1], data = [0]\<rparr>]))
   \<noteq> [[0 - (1 / 1000) * 1]]"
proof -
  define r :: real where "r = sqrt (1 / 1000)"
  have r: "0 < r" by (simp add: r_def)
  have "1 / 1000 * r / (1 / 10) * (1 / 10 / (r + 1 / 10 ^ 8)) \<noteq> 1 / 1000"
  proof
    assume "1 / 1000 * r / (1 / 10) * (1 / 10 / (r + 1 / 10 ^ 8)) = 1 / 1000"
    then have "r / (r + 1 / 10 ^ 8) = 1" by simp
    then have "r = r + 1 / 10 ^ 8" using r by (simp add: field_simps)
    then show False by simp
  qed
  then show ?thesis
    by (simp add: adam_update_def Let_def r_def)
qed

text \<open>The same parameter and gradient under the plain gradient step.\<close>

lemma sgd_step_is_gradient_step:
  "map data (fst (optimizer_step (SGD (1 / 1000)) (\<lambda>_. Some [1])
                    [\<lparr>shape = [1], data = [0]\<rparr>]))
   = [[0 - (1 / 1000) * 1]]"
  by (simp add: sgd_update_def)

text \<open>
  C9. Computing predictions (the first image of a batch, a forward pass with gradient
  recording switched off, then a softmax) leaves the model as it was, whether the cell
  returns or raises: the same modules, the same state dictionary, the same parameters, and
  also the same gradient buffers, optimizer and gradient-recording setting.
\<close>

theorem inference_frame:
  "(let s' = snd (inference tape s images) in
      model s' = model s
      \<and> state_dict_seq (model s') = state_dict_seq (model s)
      \<and> parameters (model s') = parameters (model s)
      \<and> grads s' = grads s
      \<and> optimizer s' = optimizer s
      \<and> grad_enabled s' = grad_enabled s)"
  by (auto simp: inference_def Let_def split: sum.splits prod.splits)

section \<open>Parameter names\<close>

lemma digit_char_inj:
  assumes "a < 10" "b < 10" "digit_char a = digit_char b"
  shows "a = b"
proof -
  have d: "distinct ''0123456789''" by simp
  have "length ''0123456789'' = 10" by simp
  then show ?thesis
    using assms nth_eq_iff_index_eq[OF d, of a b] by (simp add: digit_char_def)
qed

lemma string_of_nat_nonempty: "string_of_nat n \<noteq> []"
  by (subst string_of_nat.simps) simp

lemma string_of_nat_inj: "string_of_nat a = string_of_nat b \<Longrightarrow> a = b"
proof (induction a arbitrary: b rule: string_of_nat.induct)
  case (1 a)
  show ?case
  proof (cases "a < 10")
    case True
    note a = this
    show ?thesis
    proof (cases "b < 10")
      case True
      then show ?thesis
        using a "1.prems" digit_char_inj[of a b]
        by (simp add: string_of_nat.simps[of a] string_of_nat.simps[of b])
    next
      case False
      then show ?thesis
        using a "1.prems" string_of_nat_nonempty[of "b div 10"]
        by (simp add: string_of_nat.simps[of a] string_of_nat.simps[of b])
    qed
  next
    case False
    note a = this
    show ?thesis
    proof (cases "b < 10")
      case True
      then show ?thesis
        using a "1.prems" string_of_nat_nonempty[of "a div 10"]
        by (simp add: string_of_nat.simps[of a] string_of_nat.simps[of b])
    next
      case False
      then have eq: "string_of_nat (a div 10) = string_of_nat (b div 10)"
        and dg: "digit_char (a mod 10) = digit_char (b mod 10)"
        using a "1.prems"
        by (simp_all add: string_of_nat.simps[of a] string_of_nat.simps[of b])
      have "a div 10 = b div 10" using "1.IH"[OF a eq] .
      moreover have "a mod 10 = b mod 10"
        using dg by (intro digit_char_inj) simp_all
      ultimately show ?thesis by (metis div_mult_mod_eq)
    qed
  qed
qed

lemma hidden_name_inj [simp]: "(hidden_name a = hidden_name b) = (a = b)"
  by (auto simp: hidden_name_def dest: string_of_nat_inj)

lemma weight_not_bias [simp]:
  "xs @ ''.weight'' \<noteq> ys @ ''.bias''" "xs @ ''.bias'' \<noteq> ys @ ''.weight''"
proof -
  have "last (xs @ ''.weight'') \<noteq> last (ys @ ''.bias'')" by simp
  then show "xs @ ''.weight'' \<noteq> ys @ ''.bias''" by metis
  have "last (xs @ ''.bias'') \<noteq> last (ys @ ''.weight'')" by simp
  then show "xs @ ''.bias'' \<noteq> ys @ ''.weight''" by metis
qed

lemma output_not_hidden [simp]:
  "''output'' @ s \<noteq> hidden_name j @ t" "hidden_name j @ t \<noteq> ''output'' @ s"
  by (simp_all add: hidden_name_def)

subsection \<open>The keys of a state dictionary are distinct\<close>

lemma hidden_keys_form:
  assumes "x \<in> fst ` set (concat (map (\<lambda>(j, l). linear_state (hidden_name j) l)
                                   (enumerate k ls)))"
  shows "\<exists>j\<ge>k. x = hidden_name j @ ''.weight'' \<or> x = hidden_name j @ ''.bias''"
  using assms
proof (induction ls arbitrary: k)
  case Nil
  then show ?case by simp
next
  case (Cons l ls)
  from Cons.prems consider "x = hidden_name k @ ''.weight''" | "x = hidden_name k @ ''.bias''"
    | "x \<in> fst ` set (concat (map (\<lambda>(j, l). linear_state (hidden_name j) l)
                                 (enumerate (Suc k) ls)))"
    by (auto simp: linear_state_def)
  then show ?case
  proof cases
    case 1
    then show ?thesis by blast
  next
    case 2
    then show ?thesis by blast
  next
    case 3
    from Cons.IH[OF 3] obtain j where "Suc k \<le> j"
      "x = hidden_name j @ ''.weight'' \<or> x = hidden_name j @ ''.bias''" by blast
    then show ?thesis by (intro exI[of _ j]) simp
  qed
qed

lemma distinct_hidden_keys:
  "distinct (map fst (concat (map (\<lambda>(j, l). linear_state (hidden_name j) l)
                                (enumerate k ls))))"
proof (induction ls arbitrary: k)
  case Nil
  then show ?case by simp
next
  case (Cons l ls)
  have fresh: "hidden_name k @ sfx
                 \<notin> fst ` set (concat (map (\<lambda>(j, l). linear_state (hidden_name j) l)
                                        (enumerate (Suc k) ls)))"
    if "sfx = ''.weight'' \<or> sfx = ''.bias''" for sfx
  proof
    assume "hidden_name k @ sfx
              \<in> fst ` set (concat (map (\<lambda>(j, l). linear_state (hidden_name j) l)
                                     (enumerate (Suc k) ls)))"
    from hidden_keys_form[OF this] obtain j where "Suc k \<le> j"
      "hidden_name k @ sfx = hidden_name j @ ''.weight''
       \<or> hidden_name k @ sfx = hidden_name j @ ''.bias''" by blast
    then show False using that by auto
  qed
  show ?case
    using Cons.IH[of "Suc k"] fresh[of "''.weight''"] fresh[of "''.bias''"]
    by (simp add: linear_state_def)
qed

lemma distinct_state_dict: "distinct (map fst (state_dict n))"
proof -
  have "''output'' @ sfx
          \<notin> fst ` set (concat (map (\<lambda>(j, l). linear_state (hidden_name j) l)
                                 (enumerate 0 (hidden_layers n))))" for sfx
  proof
    assume "''output'' @ sfx
              \<in> fst ` set (concat (map (\<lambda>(j, l). linear_state (hidden_name j) l)
                                     (enumerate 0 (hidden_layers n))))"
    from hidden_keys_form[OF this] obtain j where
      "''output'' @ sfx = hidden_name j @ ''.weight''
       \<or> ''output'' @ sfx = hidden_name j @ ''.bias''" by blast
    then show False using output_not_hidden by metis
  qed
  from this[of "''.weight''"] this[of "''.bias''"] show ?thesis
    using distinct_hidden_keys[of 0 "hidden_layers n"]
    by (simp add: state_dict_def linear_state_def)
qed

lemma hidden_member:
  assumes "j < length ls"
  shows "(hidden_name (k + j) @ ''.weight'', weight (ls ! j))
           \<in> set (concat (map (\<lambda>(j, l). linear_state (hidden_name j) l) (enumerate k ls)))"
    and "(hidden_name (k + j) @ ''.bias'', bias (ls ! j))
           \<in> set (concat (map (\<lambda>(j, l). linear_state (hidden_name j) l) (enumerate k ls)))"
proof -
  have "(k + j, ls ! j) \<in> set (enumerate k ls)"
    using assms by (simp add: in_set_enumerate_eq)
  then show "(hidden_name (k + j) @ ''.weight'', weight (ls ! j))
           \<in> set (concat (map (\<lambda>(j, l). linear_state (hidden_name j) l) (enumerate k ls)))"
    and "(hidden_name (k + j) @ ''.bias'', bias (ls ! j))
           \<in> set (concat (map (\<lambda>(j, l). linear_state (hidden_name j) l) (enumerate k ls)))"
    by (force simp: linear_state_def)+
qed

lemma state_dict_lookup:
  "j < length (hidden_layers n) \<Longrightarrow>
     map_of (state_dict n) (hidden_name j @ ''.weight'') = Some (weight (hidden_layers n ! j))"
  "j < length (hidden_layers n) \<Longrightarrow>
     map_of (state_dict n) (hidden_name j @ ''.bias'') = Some (bias (hidden_layers n ! j))"
  "map_of (state_dict n) (''output'' @ ''.weight'') = Some (weight (output n))"
  "map_of (state_dict n) (''output'' @ ''.bias'') = Some (bias (output n))"
proof -
  note d = distinct_state_dict[of n]
  show "j < length (hidden_layers n) \<Longrightarrow>
     map_of (state_dict n) (hidden_name j @ ''.weight'') = Some (weight (hidden_layers n ! j))"
    using hidden_member(1)[of j "hidden_layers n" 0]
    by (intro map_of_is_SomeI[OF d]) (simp add: state_dict_def)
  show "j < length (hidden_layers n) \<Longrightarrow>
     map_of (state_dict n) (hidden_name j @ ''.bias'') = Some (bias (hidden_layers n ! j))"
    using hidden_member(2)[of j "hidden_layers n" 0]
    by (intro map_of_is_SomeI[OF d]) (simp add: state_dict_def)
  show "map_of (state_dict n) (''output'' @ ''.weight'') = Some (weight (output n))"
    by (intro map_of_is_SomeI[OF d]) (simp add: state_dict_def linear_state_def)
  show "map_of (state_dict n) (''output'' @ ''.bias'') = Some (bias (output n))"
    by (intro map_of_is_SomeI[OF d]) (simp add: state_dict_def linear_state_def)
qed

subsection \<open>The shapes a network's widths give\<close>

lemma shapes_of_keys [simp]: "map fst (shapes_of sd) = map fst sd"
  by (simp add: shapes_of_def case_prod_unfold comp_def)

lemma map_of_shapes_of: "map_of (shapes_of sd) k = map_option shape (map_of sd k)"
  by (simp add: shapes_of_def map_of_map)

lemma shapes_of_append [simp]: "shapes_of (xs @ ys) = shapes_of xs @ shapes_of ys"
  by (simp add: shapes_of_def)

lemma shapes_of_linear_state:
  "wf_linear l \<Longrightarrow>
     shapes_of (linear_state name l) = linear_shapes name (in_features l) (out_features l)"
  by (simp add: shapes_of_def linear_state_def linear_shapes_def wf_linear_def)

lemma hidden_shapes:
  assumes "list_all wf_linear ls"
    and "map (\<lambda>l. (in_features l, out_features l)) ls = ds"
  shows "shapes_of (concat (map (\<lambda>(j, l). linear_state (hidden_name j) l) (enumerate k ls)))
           = concat (map (\<lambda>(j, a, b). linear_shapes (hidden_name j) a b) (enumerate k ds))"
  using assms
proof (induction ls arbitrary: k ds)
  case Nil
  then show ?case by (simp add: shapes_of_def)
next
  case (Cons l ls)
  then obtain ds' where ds: "ds = (in_features l, out_features l) # ds'"
    and ds': "map (\<lambda>l. (in_features l, out_features l)) ls = ds'"
    by auto
  from Cons.prems(1) have wl: "wf_linear l" and wls: "list_all wf_linear ls" by simp_all
  show ?case
    using Cons.IH[OF wls ds', of "Suc k"] shapes_of_linear_state[OF wl]
    by (simp add: ds)
qed

lemma network_of_parts:
  assumes "network_of n_in n_out hs n"
  shows "map (\<lambda>l. (in_features l, out_features l)) (hidden_layers n) = zip (n_in # hs) hs"
    and "(in_features (output n), out_features (output n)) = (last (n_in # hs), n_out)"
    and "list_all wf_linear (hidden_layers n)" and "wf_linear (output n)"
    and "length (hidden_layers n) = length hs"
proof -
  from assms have "map (\<lambda>l. (in_features l, out_features l)) (hidden_layers n @ [output n])
                = zip (n_in # hs) (hs @ [n_out])"
    and wf: "list_all wf_linear (hidden_layers n @ [output n])"
    by (simp_all add: network_of_def)
  then have dims: "map (\<lambda>l. (in_features l, out_features l)) (hidden_layers n)
                  @ [(in_features (output n), out_features (output n))]
                = zip (n_in # hs) hs @ [(last (n_in # hs), n_out)]"
    unfolding zip_chain[of n_in hs n_out] by simp
  from dims have h: "map (\<lambda>l. (in_features l, out_features l)) (hidden_layers n)
                    = zip (n_in # hs) hs"
    by simp
  show "map (\<lambda>l. (in_features l, out_features l)) (hidden_layers n) = zip (n_in # hs) hs"
    by (rule h)
  from dims show "(in_features (output n), out_features (output n)) = (last (n_in # hs), n_out)"
    by simp
  show "length (hidden_layers n) = length hs"
    using arg_cong[OF h, of length] by simp
  from wf show "list_all wf_linear (hidden_layers n)" and "wf_linear (output n)" by simp_all
qed

lemma network_shapes:
  assumes "network_of n_in n_out hs n"
  shows "shapes_of (state_dict n) = architecture_shapes n_in n_out hs"
proof -
  note p = network_of_parts[OF assms]
  have "shapes_of (linear_state ''output'' (output n))
          = linear_shapes ''output'' (last (n_in # hs)) n_out"
    using shapes_of_linear_state[OF p(4), of "''output''"] p(2) by simp
  then show ?thesis
    using hidden_shapes[OF p(3) p(1), of 0]
    by (simp add: state_dict_def architecture_shapes_def)
qed

lemma Network_shapes:
  "shapes_of (state_dict (Network init n_in n_out hs)) = architecture_shapes n_in n_out hs"
  by (rule network_shapes[OF network_of_Network])

lemma distinct_architecture_shapes: "distinct (map fst (architecture_shapes n_in n_out hs))"
  using distinct_state_dict[of "Network (\<lambda>_ _. 0) n_in n_out hs"]
    arg_cong[OF Network_shapes[of "\<lambda>_ _. 0" n_in n_out hs], of "map fst"]
  by simp

subsection \<open>Loading a state dictionary\<close>








text \<open>A stored tensor of another shape leaves the parameter as it was; one of the
  parameter's shape replaces it.\<close>

lemma load_param_other:
  assumes "map_of (shapes_of sd) key = Some s" "s \<noteq> shape param"
  shows "load_param (map_of sd) key param = param"
  using assms by (auto simp: load_param_def map_of_shapes_of split: option.splits)

lemma load_param_same:
  assumes "map_of sd key = Some t" "shape t = shape param"
  shows "load_param (map_of sd) key param = t"
  using assms by (simp add: load_param_def)

text \<open>The problems between the two architectures of the notebook, and the message the
  notebook records for them.\<close>

lemma mismatch_problems:
  "load_problems (architecture_shapes 784 10 [400, 200, 100])
     (architecture_shapes 784 10 [512, 256, 128])
   = [Mismatch ''hidden_layers.0.weight'' [400, 784] [512, 784],
      Mismatch ''hidden_layers.0.bias'' [400] [512],
      Mismatch ''hidden_layers.1.weight'' [200, 400] [256, 512],
      Mismatch ''hidden_layers.1.bias'' [200] [256],
      Mismatch ''hidden_layers.2.weight'' [100, 200] [128, 256],
      Mismatch ''hidden_layers.2.bias'' [100] [128],
      Mismatch ''output.weight'' [10, 100] [10, 128]]"
  by (simp add: load_problems_def architecture_shapes_def linear_shapes_def hidden_name_def
      string_of_nat.simps digit_char_def)

lemma recorded_error_message:
  "error_message
     [Mismatch ''hidden_layers.0.weight'' [400, 784] [512, 784],
      Mismatch ''hidden_layers.0.bias'' [400] [512],
      Mismatch ''hidden_layers.1.weight'' [200, 400] [256, 512],
      Mismatch ''hidden_layers.1.bias'' [200] [256],
      Mismatch ''hidden_layers.2.weight'' [100, 200] [128, 256],
      Mismatch ''hidden_layers.2.bias'' [100] [128],
      Mismatch ''output.weight'' [10, 100] [10, 128]]
   = (
      ''Error(s) in loading state_dict for Network:'' @ [CHR 0x0A, CHR 0x09]
      @ ''While copying the parameter named '' @ [CHR 0x22] @ ''hidden_layers.0.weight''
      @ [CHR 0x22] @ '', whose dimensions in the model are torch.Size([400, 784]) and whose ''
      @ ''dimensions in the checkpoint are torch.Size([512, 784]).'' @ [CHR 0x0A, CHR 0x09]
      @ ''While copying the parameter named '' @ [CHR 0x22] @ ''hidden_layers.0.bias''
      @ [CHR 0x22] @ '', whose dimensions in the model are torch.Size([400]) and whose ''
      @ ''dimensions in the checkpoint are torch.Size([512]).'' @ [CHR 0x0A, CHR 0x09]
      @ ''While copying the parameter named '' @ [CHR 0x22] @ ''hidden_layers.1.weight''
      @ [CHR 0x22] @ '', whose dimensions in the model are torch.Size([200, 400]) and whose ''
      @ ''dimensions in the checkpoint are torch.Size([256, 512]).'' @ [CHR 0x0A, CHR 0x09]
      @ ''While copying the parameter named '' @ [CHR 0x22] @ ''hidden_layers.1.bias''
      @ [CHR 0x22] @ '', whose dimensions in the model are torch.Size([200]) and whose ''
      @ ''dimensions in the checkpoint are torch.Size([256]).'' @ [CHR 0x0A, CHR 0x09]
      @ ''While copying the parameter named '' @ [CHR 0x22] @ ''hidden_layers.2.weight''
      @ [CHR 0x22] @ '', whose dimensions in the model are torch.Size([100, 200]) and whose ''
      @ ''dimensions in the checkpoint are torch.Size([128, 256]).'' @ [CHR 0x0A, CHR 0x09]
      @ ''While copying the parameter named '' @ [CHR 0x22] @ ''hidden_layers.2.bias''
      @ [CHR 0x22] @ '', whose dimensions in the model are torch.Size([100]) and whose ''
      @ ''dimensions in the checkpoint are torch.Size([128]).'' @ [CHR 0x0A, CHR 0x09]
      @ ''While copying the parameter named '' @ [CHR 0x22] @ ''output.weight'' @ [CHR 0x22]
      @ '', whose dimensions in the model are torch.Size([10, 100]) and whose ''
      @ ''dimensions in the checkpoint are torch.Size([10, 128]).'')"
  by (simp add: error_message_def torch_Size_def string_of_nat.simps digit_char_def)

lemma stored_shapes:
  assumes "network_of 784 10 [512, 256, 128] n"
  shows "map_of (shapes_of (state_dict n)) (hidden_name 0 @ ''.weight'') = Some [512, 784]"
    and "map_of (shapes_of (state_dict n)) (hidden_name 0 @ ''.bias'') = Some [512]"
    and "map_of (shapes_of (state_dict n)) (hidden_name 1 @ ''.weight'') = Some [256, 512]"
    and "map_of (shapes_of (state_dict n)) (hidden_name 1 @ ''.bias'') = Some [256]"
    and "map_of (shapes_of (state_dict n)) (hidden_name 2 @ ''.weight'') = Some [128, 256]"
    and "map_of (shapes_of (state_dict n)) (hidden_name 2 @ ''.bias'') = Some [128]"
    and "map_of (shapes_of (state_dict n)) (''output'' @ ''.weight'') = Some [10, 128]"
  unfolding network_shapes[OF assms]
  by (simp_all add: architecture_shapes_def linear_shapes_def hidden_name_def
      string_of_nat.simps digit_char_def)

lemma load_linear_other:
  assumes "map_of (shapes_of sd) (name @ ''.weight'') = Some s" "s \<noteq> [b, a]"
    and "map_of (shapes_of sd) (name @ ''.bias'') = Some s'" "s' \<noteq> [b]"
  shows "load_linear (map_of sd) name (Linear init name' a b) = Linear init name' a b"
  using load_param_other[OF assms(1), of "weight (Linear init name' a b)"]
    load_param_other[OF assms(3), of "bias (Linear init name' a b)"] assms(2,4)
  by (simp add: load_linear_def)

text \<open>The network after the failed load: the hidden layers and the weight of the output
  layer are as constructed, the bias of the output layer is the stored one.\<close>

lemma load_other_architecture:
  assumes "network_of 784 10 [512, 256, 128] n"
  shows "snd (load_state_dict (Network init 784 10 [400, 200, 100]) (state_dict n))
         = (Network init 784 10 [400, 200, 100])
             \<lparr>output := (output (Network init 784 10 [400, 200, 100]))
                          \<lparr>bias := bias (output n)\<rparr>\<rparr>"
proof -
  note st = stored_shapes[OF assms]
  note p = network_of_parts[OF assms]
  have h0: "load_linear (map_of (state_dict n)) (hidden_name 0)
              (Linear init (hidden_name 0) 784 400) = Linear init (hidden_name 0) 784 400"
    by (rule load_linear_other[OF st(1) _ st(2)]) simp_all
  have h1: "load_linear (map_of (state_dict n)) (hidden_name 1)
              (Linear init (hidden_name 1) 400 200) = Linear init (hidden_name 1) 400 200"
    by (rule load_linear_other[OF st(3) _ st(4)]) simp_all
  have h2: "load_linear (map_of (state_dict n)) (hidden_name 2)
              (Linear init (hidden_name 2) 200 100) = Linear init (hidden_name 2) 200 100"
    by (rule load_linear_other[OF st(5) _ st(6)]) simp_all
  have w: "load_param (map_of (state_dict n)) (''output'' @ ''.weight'')
             (weight (Linear init ''output'' 100 10)) = weight (Linear init ''output'' 100 10)"
    by (rule load_param_other[OF st(7)]) simp
  have "shape (bias (output n)) = [10]"
    using p(2) p(4) by (simp add: wf_linear_def)
  then have b: "load_param (map_of (state_dict n)) (''output'' @ ''.bias'')
             (bias (Linear init ''output'' 100 10)) = bias (output n)"
    by (intro load_param_same[OF state_dict_lookup(4)]) simp
  have out: "load_linear (map_of (state_dict n)) ''output'' (Linear init ''output'' 100 10)
               = (Linear init ''output'' 100 10)\<lparr>bias := bias (output n)\<rparr>"
    unfolding load_linear_def w b by simp
  have hs: "hidden_layers (Network init 784 10 [400, 200, 100])
              = [Linear init (hidden_name 0) 784 400, Linear init (hidden_name 1) 400 200,
                 Linear init (hidden_name 2) 200 100]"
    and os: "output (Network init 784 10 [400, 200, 100]) = Linear init ''output'' 100 10"
    by (simp_all add: Network_def Let_def numeral_2_eq_2)
  show ?thesis
    unfolding load_state_dict_def Let_def snd_conv hs os
    using h0 h1 h2 out
    by (simp add: Network_def Let_def numeral_2_eq_2)
qed

lemma load_other_architecture_error:
  assumes "network_of 784 10 [512, 256, 128] n"
  shows "fst (load_state_dict (Network init 784 10 [400, 200, 100]) (state_dict n))
         = Some (LoadError
              [Mismatch ''hidden_layers.0.weight'' [400, 784] [512, 784],
               Mismatch ''hidden_layers.0.bias'' [400] [512],
               Mismatch ''hidden_layers.1.weight'' [200, 400] [256, 512],
               Mismatch ''hidden_layers.1.bias'' [200] [256],
               Mismatch ''hidden_layers.2.weight'' [100, 200] [128, 256],
               Mismatch ''hidden_layers.2.bias'' [100] [128],
               Mismatch ''output.weight'' [10, 100] [10, 128]])"
  by (simp add: load_state_dict_def Let_def Network_shapes network_shapes[OF assms]
      mismatch_problems)

lemma Linear_const:
  "data (bias (Linear (\<lambda>_ _. c) name a b)) = replicate b c"
  by (simp add: Linear_def map_replicate_const)

text \<open>
  C1, as amended. The parameters of a checkpoint record saved from any network with hidden
  widths 512, 256, 128 (784 inputs, 10 outputs), loaded into any freshly constructed
  network with hidden widths 400, 200, 100, make the load fail. The error lists the seven
  parameters whose shapes differ, each with its shape in the model and its shape in the
  checkpoint; no tensor is truncated or padded. The bias of the output layer has the same
  shape on both sides: it is not listed, and when the error is raised it holds the stored
  values. Every other parameter of the network is as constructed.
\<close>

theorem load_rejects_other_architecture:
  assumes "network_of 784 10 [512, 256, 128] n"
  shows "load_state_dict (Network init 784 10 [400, 200, 100]) (state_dict' (checkpoint n))
         = (Some (LoadError
              [Mismatch ''hidden_layers.0.weight'' [400, 784] [512, 784],
               Mismatch ''hidden_layers.0.bias'' [400] [512],
               Mismatch ''hidden_layers.1.weight'' [200, 400] [256, 512],
               Mismatch ''hidden_layers.1.bias'' [200] [256],
               Mismatch ''hidden_layers.2.weight'' [100, 200] [128, 256],
               Mismatch ''hidden_layers.2.bias'' [100] [128],
               Mismatch ''output.weight'' [10, 100] [10, 128]]),
            (Network init 784 10 [400, 200, 100])
              \<lparr>output := (output (Network init 784 10 [400, 200, 100]))
                           \<lparr>bias := bias (output n)\<rparr>\<rparr>)"
  using load_other_architecture[OF assms, of init]
    load_other_architecture_error[OF assms, of init]
  by (simp add: checkpoint_def prod_eq_iff)

theorem load_rejects_other_architecture_witness:
  "network_of 784 10 [512, 256, 128] (Network (\<lambda>_ _. 1) 784 10 [512, 256, 128])
   \<and> load_state_dict (Network (\<lambda>_ _. 0) 784 10 [400, 200, 100])
         (state_dict' (checkpoint (Network (\<lambda>_ _. 1) 784 10 [512, 256, 128])))
       = (Some (LoadError
              [Mismatch ''hidden_layers.0.weight'' [400, 784] [512, 784],
               Mismatch ''hidden_layers.0.bias'' [400] [512],
               Mismatch ''hidden_layers.1.weight'' [200, 400] [256, 512],
               Mismatch ''hidden_layers.1.bias'' [200] [256],
               Mismatch ''hidden_layers.2.weight'' [100, 200] [128, 256],
               Mismatch ''hidden_layers.2.bias'' [100] [128],
               Mismatch ''output.weight'' [10, 100] [10, 128]]),
          (Network (\<lambda>_ _. 0) 784 10 [400, 200, 100])
            \<lparr>output := (output (Network (\<lambda>_ _. 0) 784 10 [400, 200, 100]))
                         \<lparr>bias := bias (output (Network (\<lambda>_ _. 1) 784 10
                                                  [512, 256, 128]))\<rparr>\<rparr>)"
proof -
  have h: "network_of 784 10 [512, 256, 128] (Network (\<lambda>_ _. 1) 784 10 [512, 256, 128])"
    by (rule network_of_Network)
  show ?thesis
    using h load_rejects_other_architecture[OF h, of "\<lambda>_ _. 0"] by simp
qed

text \<open>
  C1 as stated fails in its last clause: the failed load leaves the target network
  partially populated. A network with hidden widths 400, 200, 100 constructed with all
  parameters zero, after the failed load of the parameters of a network with hidden widths
  512, 256, 128 whose parameters are all one: the load raised, the hidden layers are as
  constructed, and the bias of the output layer, ten zeros before, is ten ones.
\<close>

theorem load_partially_populates:
  "fst (load_state_dict (Network (\<lambda>_ _. 0) 784 10 [400, 200, 100])
          (state_dict' (checkpoint (Network (\<lambda>_ _. 1) 784 10 [512, 256, 128])))) \<noteq> None
   \<and> hidden_layers
         (snd (load_state_dict (Network (\<lambda>_ _. 0) 784 10 [400, 200, 100])
                 (state_dict' (checkpoint (Network (\<lambda>_ _. 1) 784 10 [512, 256, 128])))))
       = hidden_layers (Network (\<lambda>_ _. 0) 784 10 [400, 200, 100])
   \<and> data (bias (output (Network (\<lambda>_ _. 0) 784 10 [400, 200, 100]))) = replicate 10 0
   \<and> data (bias (output
         (snd (load_state_dict (Network (\<lambda>_ _. 0) 784 10 [400, 200, 100])
                 (state_dict' (checkpoint (Network (\<lambda>_ _. 1) 784 10 [512, 256, 128])))))))
       = replicate 10 1
   \<and> snd (load_state_dict (Network (\<lambda>_ _. 0) 784 10 [400, 200, 100])
            (state_dict' (checkpoint (Network (\<lambda>_ _. 1) 784 10 [512, 256, 128]))))
       \<noteq> Network (\<lambda>_ _. 0) 784 10 [400, 200, 100]"
proof -
  have h: "network_of 784 10 [512, 256, 128] (Network (\<lambda>_ _. 1) 784 10 [512, 256, 128])"
    by (rule network_of_Network)
  have o: "output (Network init 784 10 hs) = Linear init ''output'' (last (784 # hs)) 10"
    for init hs
    by (simp add: Network_def Let_def)
  have before: "data (bias (output (Network (\<lambda>_ _. 0) 784 10 [400, 200, 100])))
                  = replicate 10 0"
    by (simp add: o Linear_const)
  have after: "data (bias (output
         (snd (load_state_dict (Network (\<lambda>_ _. 0) 784 10 [400, 200, 100])
                 (state_dict' (checkpoint (Network (\<lambda>_ _. 1) 784 10 [512, 256, 128])))))))
       = replicate 10 1"
    using load_other_architecture[OF h, of "\<lambda>_ _. 0"]
    by (simp add: checkpoint_def o Linear_const)
  have "replicate 10 (1::real) \<noteq> replicate 10 0"
    by (simp add: replicate_eq_replicate)
  with before after
  have changed: "snd (load_state_dict (Network (\<lambda>_ _. 0) 784 10 [400, 200, 100])
            (state_dict' (checkpoint (Network (\<lambda>_ _. 1) 784 10 [512, 256, 128]))))
       \<noteq> Network (\<lambda>_ _. 0) 784 10 [400, 200, 100]"
    by metis
  show ?thesis
    using load_other_architecture[OF h, of "\<lambda>_ _. 0"]
      load_other_architecture_error[OF h, of "\<lambda>_ _. 0"] before after changed
    by (simp add: checkpoint_def)
qed








end
